theory Spec2Isabelle
  imports Complex_Main "HOL-Library.AList"
begin

section \<open>JavaScript values\<close>

text \<open>
  A JavaScript string is the sequence of its UTF-16 code units, so \<open>s.length\<close> is
  \<open>length s\<close> and the zero-width space U+200B that the distortion inserts is the
  code unit 8203. \<open>js\<close> embeds an ASCII literal of the source.
\<close>

type_synonym jsstring = "nat list"

abbreviation js :: "string \<Rightarrow> jsstring" where
  "js s \<equiv> map of_char s"

text \<open>
  The values a field of a parsed JSON body takes, and \<open>undefined\<close> for a field that is
  absent. A number is given by the string \<open>String(n)\<close> that JavaScript prints for it
  (\<open>JNumber (js ''7.5'')\<close>, \<open>JNumber (js ''1e+21'')\<close>): the handlers read nothing else of
  a number but whether it is zero, and a JSON number is never \<open>NaN\<close>. An object is the
  list of its own properties.
\<close>

datatype jsvalue =
    JUndefined
  | JNull
  | JBool bool
  | JNumber jsstring
  | JString jsstring
  | JArray "jsvalue list"
  | JObject "(jsstring \<times> jsvalue) list"

text \<open>\<open>!v\<close> is \<open>\<not> truthy v\<close>.\<close>

fun truthy :: "jsvalue \<Rightarrow> bool" where
  "truthy JUndefined = False"
| "truthy JNull = False"
| "truthy (JBool b) = b"
| "truthy (JNumber s) = (s \<noteq> js ''0'' \<and> s \<noteq> js ''NaN'')"
| "truthy (JString s) = (s \<noteq> [])"
| "truthy (JArray xs) = True"
| "truthy (JObject kvs) = True"

text \<open>\<open>xs.join(sep)\<close> for strings.\<close>

fun joinWith :: "jsstring \<Rightarrow> jsstring list \<Rightarrow> jsstring" where
  "joinWith sep [] = []"
| "joinWith sep [x] = x"
| "joinWith sep (x # y # ys) = x @ sep @ joinWith sep (y # ys)"

text \<open>
  The conversion to a string that \<open>parseInt\<close> applies to its argument; \<open>None\<close> where it
  throws a \<open>TypeError\<close>. An array joins the conversions of its elements with commas,
  \<open>undefined\<close> and \<open>null\<close> counting as the empty string. An object of a JSON body has
  \<open>Object.prototype\<close> as its prototype and no callable property of its own: with no
  own property \<open>toString\<close> it prints as \<open>[object Object]\<close>; with one, that property is
  not callable, \<open>valueOf\<close> (own and not callable, or inherited and returning the object)
  gives no primitive either, and the conversion throws.
\<close>

fun toStringValue :: "jsvalue \<Rightarrow> jsstring option" where
  "toStringValue JUndefined = Some (js ''undefined'')"
| "toStringValue JNull = Some (js ''null'')"
| "toStringValue (JBool b) = Some (if b then js ''true'' else js ''false'')"
| "toStringValue (JNumber s) = Some s"
| "toStringValue (JString s) = Some s"
| "toStringValue (JArray xs) =
     map_option (joinWith (js '',''))
       (those (map (\<lambda>x. if x = JUndefined \<or> x = JNull then Some [] else toStringValue x) xs))"
| "toStringValue (JObject kvs) =
     (if js ''toString'' \<in> set (map fst kvs) then None else Some (js ''[object Object]''))"

text \<open>\<open>h || ''\<close> for an optional header.\<close>

definition orEmpty :: "jsstring option \<Rightarrow> jsstring" where
  "orEmpty h = (case h of None \<Rightarrow> [] | Some s \<Rightarrow> s)"

text \<open>\<open>String(n)\<close> for an integer-valued number below \<open>10^21\<close> in magnitude: its decimal digits.\<close>

fun digitsOf :: "nat \<Rightarrow> jsstring" where
  "digitsOf n = (if n < 10 then [48 + n] else digitsOf (n div 10) @ [48 + n mod 10])"

definition toString :: "int \<Rightarrow> jsstring" where
  "toString n = (if n < 0 then 45 # digitsOf (nat (- n)) else digitsOf (nat n))"

text \<open>\<open>xs.indexOf(x)\<close>, with \<open>-1\<close> when \<open>x\<close> does not occur.\<close>

fun indexOf :: "'a list \<Rightarrow> 'a \<Rightarrow> int" where
  "indexOf [] x = - 1"
| "indexOf (y # ys) x = (if y = x then 0 else (let i = indexOf ys x in if i < 0 then - 1 else i + 1))"

subsection \<open>Substring search and the regular expressions of the source\<close>

text \<open>
  Every regular expression of the server is an alternation of ASCII literals tested
  with the flag \<open>i\<close>. Two code units match under that flag when their canonical
  forms agree; for an ASCII literal this is agreement up to the case of the letters
  a to z, since no code unit beyond ASCII is canonicalised into ASCII.
\<close>

definition canonicalize :: "nat \<Rightarrow> nat" where
  "canonicalize c = (if 97 \<le> c \<and> c \<le> 122 then c - 32 else c)"

fun matchesAt :: "(nat \<Rightarrow> nat) \<Rightarrow> jsstring \<Rightarrow> jsstring \<Rightarrow> bool" where
  "matchesAt f [] s = True"
| "matchesAt f (p # ps) [] = False"
| "matchesAt f (p # ps) (c # cs) = (f p = f c \<and> matchesAt f ps cs)"

fun search :: "(nat \<Rightarrow> nat) \<Rightarrow> jsstring \<Rightarrow> jsstring \<Rightarrow> bool" where
  "search f p [] = matchesAt f p []"
| "search f p (c # cs) = (matchesAt f p (c # cs) \<or> search f p cs)"

text \<open>\<open>s.includes(p)\<close>\<close>

definition includes_str :: "jsstring \<Rightarrow> string \<Rightarrow> bool" where
  "includes_str s p = search id (js p) s"

text \<open>\<open>/p1|p2|.../i.test(s)\<close>\<close>

definition regexTest :: "string list \<Rightarrow> jsstring \<Rightarrow> bool" where
  "regexTest alts s = list_ex (\<lambda>p. search canonicalize (js p) s) alts"

section \<open>Configuration\<close>

record limitConfig =
  windowMs :: int
  maxRequests :: nat

definition captchaGeneration :: limitConfig where
  "captchaGeneration = \<lparr>windowMs = 15 * 60 * 1000, maxRequests = 100\<rparr>"

definition captchaValidation :: limitConfig where
  "captchaValidation = \<lparr>windowMs = 15 * 60 * 1000, maxRequests = 200\<rparr>"

definition general :: limitConfig where
  "general = \<lparr>windowMs = 15 * 60 * 1000, maxRequests = 500\<rparr>"

definition expiration :: int where
  "expiration = 10 * 60 * 1000"

definition maxAttempts :: nat where
  "maxAttempts = 3"

definition maxAnswerLength :: nat where
  "maxAnswerLength = 10"

definition allowedDifficulties :: "jsstring list" where
  "allowedDifficulties = [js ''easy'', js ''medium'', js ''hard'', js ''extreme'']"

section \<open>Requests, bot detection and the choice of difficulty\<close>

text \<open>
  The part of an Express request the core reads: the two headers, the client address
  (\<open>req.ip || req.connection.remoteAddress || 'unknown'\<close>, already resolved), the path,
  and the fields the middleware writes.
\<close>

record request =
  header_user_agent :: "jsstring option"
  header_accept :: "jsstring option"
  ip :: jsstring
  path :: jsstring
  botScore :: int
  botSignals :: "jsstring list"

definition botPatterns :: "string list" where
  "botPatterns = [''bot'', ''crawl'', ''spider'', ''scrape'', ''python'', ''curl'', ''wget'',
     ''phantom'', ''headless'', ''chrome-lighthouse'']"

text \<open>
  \<open>botDetection\<close>, the middleware of the first server file (the second has nine patterns
  and no accept check). Its \<open>finish\<close> callback runs after the response and adds to the
  local variable only, never to \<open>req.botScore\<close>, which was copied before.
\<close>

definition botDetection :: "request \<Rightarrow> request" where
  "botDetection req =
     (let userAgent = orEmpty (header_user_agent req);
          accept = orEmpty (header_accept req);
          s0 = (if userAgent = [] then (10, [js ''missing-user-agent'']) else (0, []));
          s1 = foldl (\<lambda>(score, signals) pattern.
                  if regexTest [pattern] userAgent
                  then (score + 5, signals @ [js ''bot-ua-'' @ js pattern])
                  else (score, signals)) s0 botPatterns;
          s2 = (if \<not> includes_str accept ''application/json'' \<and> \<not> includes_str accept ''text/html''
                then (fst s1 + 3, snd s1 @ [js ''suspicious-accept''])
                else s1)
      in req\<lparr>botScore := fst s2, botSignals := snd s2\<rparr>)"

text \<open>
  \<open>determineDifficulty(req, requestedDifficulty)\<close>. The requested difficulty is a query
  parameter: absent or a string.
\<close>

definition determineDifficulty :: "request \<Rightarrow> jsstring option \<Rightarrow> jsstring" where
  "determineDifficulty req requestedDifficulty =
     (let userAgent = orEmpty (header_user_agent req);
          isMobile = regexTest [''Mobi'', ''Android'', ''iPhone'', ''iPad''] userAgent;
          isTablet = regexTest [''Tablet'', ''iPad''] userAgent;
          byContext =
            (if isMobile then js ''easy''
             else if isTablet then js ''medium''
             else if botScore req > 15 then js ''hard''
             else if botScore req > 25 then js ''extreme''
             else js ''medium'')
      in case requestedDifficulty of
           None \<Rightarrow> byContext
         | Some d \<Rightarrow> if d \<noteq> [] \<and> d \<in> set allowedDifficulties then d else byContext)"

section \<open>\<open>parseInt\<close>\<close>

text \<open>
  \<open>parseInt(string)\<close> with no radix: leading white space is dropped, then a sign, then
  the prefix \<open>0x\<close> or \<open>0X\<close> selects radix 16, and the longest run of digits of the
  radix is the value; no digit at all is \<open>NaN\<close>, here \<open>None\<close>. The value is the exact
  integer; the source rounds it to a double from \<open>2^53\<close> on, so the two agree on whether
  the value equals an answer below \<open>2^53\<close> in magnitude, as every answer of the generator
  is.
\<close>

definition isWhiteSpace :: "nat \<Rightarrow> bool" where
  "isWhiteSpace c = (c \<in> {9, 10, 11, 12, 13, 32, 160, 5760, 8232, 8233, 8239, 8287, 12288, 65279}
     \<or> (8192 \<le> c \<and> c \<le> 8202))"

definition digitValue :: "nat \<Rightarrow> nat \<Rightarrow> nat option" where
  "digitValue radix c =
     (let v = (if 48 \<le> c \<and> c \<le> 57 then Some (c - 48)
               else if 97 \<le> c \<and> c \<le> 122 then Some (c - 87)
               else if 65 \<le> c \<and> c \<le> 90 then Some (c - 55)
               else None)
      in case v of None \<Rightarrow> None | Some d \<Rightarrow> if d < radix then Some d else None)"

fun takeDigits :: "nat \<Rightarrow> jsstring \<Rightarrow> nat list" where
  "takeDigits radix [] = []"
| "takeDigits radix (c # cs) =
     (case digitValue radix c of None \<Rightarrow> [] | Some d \<Rightarrow> d # takeDigits radix cs)"

definition parseIntString :: "jsstring \<Rightarrow> int option" where
  "parseIntString inputString =
     (let S = dropWhile isWhiteSpace inputString;
          sign = (case S of [] \<Rightarrow> 1 | c # _ \<Rightarrow> if c = 45 then - 1 else (1::int));
          S = (case S of [] \<Rightarrow> S | c # cs \<Rightarrow> if c = 43 \<or> c = 45 then cs else S);
          R = (case S of a # b # _ \<Rightarrow> if a = 48 \<and> (b = 120 \<or> b = 88) then 16 else 10 | _ \<Rightarrow> 10);
          S = (if R = 16 then drop 2 S else S);
          Z = takeDigits R S
      in if Z = [] then None else Some (sign * int (foldl (\<lambda>acc d. acc * R + d) 0 Z)))"

datatype js_error = TypeError | SyntaxError

text \<open>
  \<open>parseInt(v)\<close> converts \<open>v\<close> to a string first, and throws where the conversion
  throws.
\<close>

definition parseInt :: "jsvalue \<Rightarrow> js_error + int option" where
  "parseInt v = (case toStringValue v of
                   None \<Rightarrow> Inl TypeError
                 | Some s \<Rightarrow> Inr (parseIntString s))"

section \<open>The challenge store\<close>

record validationRecord =
  timestamp :: int
  wasValid :: bool
  userAnswer :: jsvalue
  actualAnswer :: int

record captchaContext =
  ctxUserAgent :: "jsstring option"
  ctxIp :: jsstring
  ctxBotScore :: int
  ctxBotSignals :: "jsstring list"
  requestedDifficulty :: "jsstring option"
  determinedDifficulty :: jsstring

text \<open>
  A stored challenge. \<open>storedAnswer\<close>, \<open>storedDifficulty\<close>, \<open>storedType\<close> and
  \<open>storedContext\<close> are the fields \<open>answer\<close>, \<open>difficulty\<close>, \<open>type\<close> and \<open>context\<close> of the
  source; \<open>storedType\<close> is \<open>None\<close> where the generator returned no \<open>type\<close>.
\<close>

record captchaData =
  storedAnswer :: int
  createdAt :: int
  expiresAt :: int
  attempts :: nat
  storedDifficulty :: jsstring
  storedType :: "jsstring option"
  storedContext :: captchaContext
  lastValidation :: "validationRecord option"

text \<open>
  \<open>captchaStore\<close> is a JavaScript \<open>Map\<close>: entries in insertion order, \<open>set\<close> replacing
  the value of a key that is present and appending otherwise. Its keys are the strings
  \<open>uuid()\<close> returned, so a value that is not a string is no key of it.
\<close>

type_synonym captchaStore = "(jsstring \<times> captchaData) list"

fun store_get :: "captchaStore \<Rightarrow> jsvalue \<Rightarrow> captchaData option" where
  "store_get store (JString k) = map_of store k"
| "store_get store v = None"

definition store_has :: "captchaStore \<Rightarrow> jsvalue \<Rightarrow> bool" where
  "store_has store v = (store_get store v \<noteq> None)"

fun store_delete :: "jsvalue \<Rightarrow> captchaStore \<Rightarrow> captchaStore" where
  "store_delete (JString k) store = AList.delete k store"
| "store_delete v store = store"

fun store_set :: "jsvalue \<Rightarrow> captchaData \<Rightarrow> captchaStore \<Rightarrow> captchaStore" where
  "store_set (JString k) d store = AList.update k d store"
| "store_set v d store = store"

subsection \<open>\<open>POST /api/validate-captcha\<close>\<close>

record validateResponse =
  statusCode :: nat
  success :: bool
  valid :: bool
  reason :: "string option"
  respAttempts :: "nat option"
  respDifficulty :: "jsstring option"

definition rejected :: "nat \<Rightarrow> string \<Rightarrow> validateResponse" where
  "rejected code why = \<lparr>statusCode = code, success = False, valid = False, reason = Some why,
     respAttempts = None, respDifficulty = None\<rparr>"

text \<open>
  The handler, with the two readings of \<open>Date.now()\<close> as arguments: \<open>now\<close> for the
  expiry check and \<open>now'\<close> for the time stamp of the validation record. \<open>captchaData\<close>
  is the stored object itself, so \<open>attempts++\<close> changes the store at once; the entry is
  then deleted or kept with the new count. Where \<open>parseInt(answer)\<close> throws, the
  \<open>catch\<close> of the handler answers 500 "Validation error", and the entry stays as the
  increment left it, with no validation record written. \<open>captchaId\<close> and \<open>answer\<close> are
  the two fields read from \<open>req.body\<close>; were \<open>req.body\<close> itself \<open>undefined\<close>, the handler
  would throw before it reads the store and answer 500 with the store as it was. The
  second server file has the same handler without the \<open>difficulty\<close> of the last
  response.
\<close>

definition validate_captcha ::
  "int \<Rightarrow> int \<Rightarrow> jsvalue \<Rightarrow> jsvalue \<Rightarrow> captchaStore \<Rightarrow> validateResponse \<times> captchaStore" where
  "validate_captcha now now' captchaId answer store =
     (if \<not> truthy captchaId \<or> answer = JUndefined \<or> answer = JNull
      then (rejected 400 ''Missing captchaId or answer'', store)
      else if (case answer of JString s \<Rightarrow> length s > maxAnswerLength | _ \<Rightarrow> False)
      then (rejected 200 ''Answer too long'', store)
      else case store_get store captchaId of
        None \<Rightarrow> (rejected 200 ''Invalid or expired CAPTCHA'', store)
      | Some stored \<Rightarrow>
          if now > expiresAt stored
          then (rejected 200 ''CAPTCHA expired'', store_delete captchaId store)
          else
            let captchaData = stored\<lparr>attempts := attempts stored + 1\<rparr>
            in if attempts captchaData > maxAttempts
               then (rejected 200 ''Too many attempts'', store_delete captchaId store)
               else
                 case parseInt answer of
                   Inl e \<Rightarrow>
                     (rejected 500 ''Validation error'', store_set captchaId captchaData store)
                 | Inr parsed \<Rightarrow>
                     let isValid = (parsed = Some (storedAnswer captchaData));
                         captchaData = captchaData\<lparr>lastValidation := Some
                           \<lparr>timestamp = now', wasValid = isValid, userAnswer = answer,
                            actualAnswer = storedAnswer captchaData\<rparr>\<rparr>;
                         response = \<lparr>statusCode = 200, success = True, valid = isValid,
                           reason = (if isValid then None else Some ''Wrong answer''),
                           respAttempts = Some (attempts captchaData),
                           respDifficulty = Some (storedDifficulty captchaData)\<rparr>
                     in if isValid
                        then (response, store_delete captchaId store)
                        else (response, store_set captchaId captchaData store))"

subsection \<open>\<open>GET /api/captcha/fallback\<close>\<close>

text \<open>
  The difficulty the handler writes into its redirect to \<open>/api/captcha\<close>; the previous
  difficulty is a query parameter, absent or a string.
\<close>

definition fallbackDifficulty :: "jsstring option \<Rightarrow> jsstring" where
  "fallbackDifficulty previousDifficulty =
     (let difficulties = [js ''extreme'', js ''hard'', js ''medium'', js ''easy'']
      in case previousDifficulty of
           None \<Rightarrow> js ''easy''
         | Some p \<Rightarrow>
             if p \<noteq> [] \<and> p \<in> set difficulties
             then (let currentIndex = indexOf difficulties p
                   in difficulties ! nat (min (currentIndex + 1) (int (length difficulties) - 1)))
             else js ''easy'')"

text \<open>
  The handler: the difficulty of the redirect, and the store after the previous
  challenge, when one is named and present, is deleted.
\<close>

definition captcha_fallback ::
  "jsstring option \<Rightarrow> jsvalue \<Rightarrow> captchaStore \<Rightarrow> jsstring \<times> captchaStore" where
  "captcha_fallback previousDifficulty previousCaptchaId store =
     (fallbackDifficulty previousDifficulty,
      if truthy previousCaptchaId \<and> store_has store previousCaptchaId
      then store_delete previousCaptchaId store else store)"

subsection \<open>The periodic cleanup\<close>

text \<open>What the timer does to the challenge store: every expired entry is deleted.\<close>

definition cleanup :: "int \<Rightarrow> captchaStore \<Rightarrow> captchaStore" where
  "cleanup now store = filter (\<lambda>(k, data). \<not> now > expiresAt data) store"

section \<open>The puzzle generator\<close>

text \<open>
  \<open>Math.random()\<close> is the sequence \<open>rnd\<close> of the values it returns: \<open>rnd i\<close> is the
  \<open>i\<close>-th. A function that draws takes the index of the next value and returns the
  index after its last draw. The values are numbers of the unit interval, and products
  and comparisons with them are exact.
\<close>

definition unitInterval :: "(nat \<Rightarrow> real) \<Rightarrow> bool" where
  "unitInterval rnd = (\<forall>i. 0 \<le> rnd i \<and> rnd i < 1)"

text \<open>\<open>randomInRange([min, max])\<close>\<close>

definition randomInRange :: "int \<times> int \<Rightarrow> (nat \<Rightarrow> real) \<Rightarrow> nat \<Rightarrow> int \<times> nat" where
  "randomInRange r rnd i =
     (case r of (lo, hi) \<Rightarrow> (\<lfloor>rnd i * of_int (hi - lo + 1)\<rfloor> + lo, Suc i))"

text \<open>
  \<open>xs[Math.floor(Math.random() * xs.length)]\<close>; an index outside the array reads
  \<open>undefined\<close>, here \<open>None\<close>.
\<close>

definition randomElement :: "'a list \<Rightarrow> (nat \<Rightarrow> real) \<Rightarrow> nat \<Rightarrow> 'a option \<times> nat" where
  "randomElement xs rnd i =
     (let k = \<lfloor>rnd i * of_nat (length xs)\<rfloor>
      in (if 0 \<le> k \<and> nat k < length xs then Some (xs ! nat k) else None, Suc i))"

text \<open>
  What \<open>generateCaptcha\<close> returns. \<open>captchaType\<close> is the field \<open>type\<close>; it and
  \<open>difficulty\<close> are \<open>None\<close> in an object that has no such field.
\<close>

record captcha =
  question :: jsstring
  answer :: int
  captchaType :: "jsstring option"
  difficulty :: "jsstring option"

definition numbers :: "jsstring list" where
  "numbers = [js ''zero'', js ''one'', js ''two'', js ''three'', js ''four'', js ''five'',
     js ''six'', js ''seven'', js ''eight'', js ''nine'', js ''ten'']"

text \<open>The multiplication sign U+00D7 is the code unit 215.\<close>

definition generateBasicCaptcha ::
  "jsstring option \<Rightarrow> int \<times> int \<Rightarrow> (nat \<Rightarrow> real) \<Rightarrow> nat \<Rightarrow> captcha \<times> nat" where
  "generateBasicCaptcha type range' rnd i0 =
     (let (a, i) = randomInRange range' rnd i0;
          (b, i) = randomInRange range' rnd i
      in if type = Some (js ''addition'') then
           (\<lparr>question = js ''What is '' @ toString a @ js '' + '' @ toString b @ js ''?'',
             answer = a + b, captchaType = None, difficulty = None\<rparr>, i)
         else if type = Some (js ''subtraction'') then
           (let x = max a b; y = min a b
            in (\<lparr>question = js ''What is '' @ toString x @ js '' - '' @ toString y @ js ''?'',
                 answer = x - y, captchaType = None, difficulty = None\<rparr>, i))
         else if type = Some (js ''multiplication'') then
           (\<lparr>question = js ''What is '' @ toString a @ js '' '' @ [215] @ js '' '' @ toString b @ js ''?'',
             answer = a * b, captchaType = None, difficulty = None\<rparr>, i)
         else if type = Some (js ''numberToText'') then
           (let (num, i) = randomInRange (0, 10) rnd i;
                word = (if 0 \<le> num \<and> nat num < length numbers then numbers ! nat num
                        else js ''undefined'')
            in (\<lparr>question = js ''Type the number: '' @ [34] @ word @ [34],
                 answer = num, captchaType = None, difficulty = None\<rparr>, i))
         else
           (\<lparr>question = js ''What is '' @ toString a @ js '' + '' @ toString b @ js ''?'',
             answer = a + b, captchaType = None, difficulty = None\<rparr>, i))"

subsection \<open>Distortion\<close>

definition leetMap :: "nat \<Rightarrow> nat option" where
  "leetMap c = map_of [(97, 52), (101, 51), (105, 49), (111, 48), (115, 53)] c"

definition toLowerCase :: "nat \<Rightarrow> nat" where
  "toLowerCase c = (if 65 \<le> c \<and> c \<le> 90 then c + 32 else c)"

text \<open>
  \<open>result.replace(/[aeios]/gi, ...)\<close>: one draw for each matching code unit, from left
  to right.
\<close>

fun leetspeak :: "jsstring \<Rightarrow> (nat \<Rightarrow> real) \<Rightarrow> nat \<Rightarrow> jsstring \<times> nat" where
  "leetspeak [] rnd i = ([], i)"
| "leetspeak (c # cs) rnd i =
     (if c \<in> set (js ''aeiosAEIOS'') then
        (let char = (if rnd i < 3 / 10
                     then (case leetMap (toLowerCase c) of Some l \<Rightarrow> l | None \<Rightarrow> c)
                     else c);
             (rest, j) = leetspeak cs rnd (Suc i)
         in (char # rest, j))
      else (let (rest, j) = leetspeak cs rnd i in (c # rest, j)))"

text \<open>\<open>result.split('').map(...).join('')\<close>: one draw for each code unit.\<close>

fun unicode :: "jsstring \<Rightarrow> (nat \<Rightarrow> real) \<Rightarrow> nat \<Rightarrow> jsstring \<times> nat" where
  "unicode [] rnd i = ([], i)"
| "unicode (c # cs) rnd i =
     (let (rest, j) = unicode cs rnd (Suc i)
      in ((if rnd i < 1 / 10 then [c, 8203] else [c]) @ rest, j))"

definition distortions :: "jsstring \<Rightarrow> string list option" where
  "distortions d =
     map_of [(js ''easy'', [''spaces'']),
             (js ''medium'', [''spaces'', ''caps'']),
             (js ''hard'', [''spaces'', ''caps'', ''punctuation'', ''leetspeak'']),
             (js ''extreme'', [''spaces'', ''caps'', ''punctuation'', ''leetspeak'', ''unicode''])] d"

definition applyDistortion ::
  "jsstring \<Rightarrow> jsstring \<Rightarrow> (nat \<Rightarrow> real) \<Rightarrow> nat \<Rightarrow> jsstring \<times> nat" where
  "applyDistortion text' d rnd i0 =
     (let selectedDistortions =
            (case distortions d of Some ds \<Rightarrow> ds | None \<Rightarrow> [''spaces'', ''caps''])
      in foldl (\<lambda>(result, i) distortion.
                  if distortion = ''leetspeak'' then leetspeak result rnd i
                  else if distortion = ''unicode'' then unicode result rnd i
                  else (result, i))
           (text', i0) selectedDistortions)"

subsection \<open>\<open>generateCaptcha\<close>\<close>

record difficultyConfig =
  types :: "jsstring list"
  range' :: "int \<times> int"

definition difficulties :: "jsstring \<Rightarrow> difficultyConfig option" where
  "difficulties d =
     map_of [(js ''easy'', \<lparr>types = [js ''addition'', js ''subtraction''], range' = (1, 10)\<rparr>),
             (js ''medium'', \<lparr>types = [js ''addition'', js ''subtraction'', js ''multiplication'',
                js ''numberToText''], range' = (1, 15)\<rparr>),
             (js ''hard'', \<lparr>types = [js ''multiplication'', js ''simpleAlgebra'',
                js ''mixedOperations'', js ''wordProblem''], range' = (1, 20)\<rparr>),
             (js ''extreme'', \<lparr>types = [js ''complexAlgebra'', js ''multipleOperations'',
                js ''logicPuzzle''], range' = (5, 30)\<rparr>)] d"

text \<open>
  \<open>difficulties\<close> is an object literal, so a name it inherits from
  \<open>Object.prototype\<close> reads a value that is neither a configuration nor falsy, and the
  next line throws a \<open>TypeError\<close>.
\<close>

definition objectPrototypeKeys :: "jsstring list" where
  "objectPrototypeKeys = [js ''constructor'', js ''hasOwnProperty'', js ''isPrototypeOf'',
     js ''propertyIsEnumerable'', js ''toLocaleString'', js ''toString'', js ''valueOf'',
     js ''__proto__'', js ''__defineGetter__'', js ''__defineSetter__'',
     js ''__lookupGetter__'', js ''__lookupSetter__'']"

text \<open>
  \<open>eval\<close> of \<open>`${num1} ${op} ${num2}`\<close> for two integers and one of the three
  operators.
\<close>

definition evalBinary :: "jsstring \<Rightarrow> int \<Rightarrow> int \<Rightarrow> int" where
  "evalBinary op' num1 num2 =
     (if op' = js ''+'' then num1 + num2 else if op' = js ''-'' then num1 - num2 else num1 * num2)"

text \<open>\<open>s.replace(p, r)\<close> for a string pattern: the first occurrence only.\<close>

fun replaceFirst :: "jsstring \<Rightarrow> jsstring \<Rightarrow> jsstring \<Rightarrow> jsstring" where
  "replaceFirst p r [] = (if p = [] then r else [])"
| "replaceFirst p r (c # cs) =
     (if matchesAt id p (c # cs) then r @ drop (length p) (c # cs) else c # replaceFirst p r cs)"

definition problems :: "(jsstring \<times> (int \<Rightarrow> int \<Rightarrow> int)) list" where
  "problems =
     [(js ''If you have {a} apples and buy {b} more, how many do you have?'', \<lambda>a b. a + b),
      (js ''A pizza has {a} slices. If you eat {b}, how many remain?'', \<lambda>a b. a - b),
      (js ''There are {a} cars with {b} wheels each. Total wheels?'', \<lambda>a b. a * b)]"

definition puzzles :: "(jsstring \<times> int) list" where
  "puzzles =
     [(js ''What is the next number: 2, 4, 6, 8, ?'', 10),
      (js ''If 3 cats catch 3 mice in 3 minutes, how many cats to catch 100 mice in 100 minutes?'', 3)]"

text \<open>The two lines after the \<open>switch\<close>: distort the question, round the answer.\<close>

definition distorted ::
  "jsstring \<Rightarrow> real \<Rightarrow> jsstring option \<Rightarrow> jsstring \<Rightarrow> (nat \<Rightarrow> real) \<Rightarrow> nat \<Rightarrow> captcha \<times> nat" where
  "distorted q a type d rnd i0 =
     (let (q', i) = applyDistortion q d rnd i0
      in (\<lparr>question = q', answer = round a, captchaType = type, difficulty = Some d\<rparr>, i))"

text \<open>
  \<open>generateCaptcha(difficulty)\<close>; the argument \<open>None\<close> is \<open>undefined\<close>, which the
  default replaces by \<open>'medium'\<close>. In the algebra case the divisor \<open>coeff\<close> lies between
  2 and 5 for draws of the unit interval.
\<close>

definition generateCaptcha ::
  "jsstring option \<Rightarrow> (nat \<Rightarrow> real) \<Rightarrow> nat \<Rightarrow> js_error + captcha \<times> nat" where
  "generateCaptcha difficultyArg rnd i0 =
     (let d = (case difficultyArg of None \<Rightarrow> js ''medium'' | Some d \<Rightarrow> d)
      in if d \<in> set objectPrototypeKeys then Inl TypeError
         else
           let config = (case difficulties d of
                           Some c \<Rightarrow> c
                         | None \<Rightarrow> \<lparr>types = [js ''addition'', js ''subtraction'',
                             js ''multiplication'', js ''numberToText''], range' = (1, 15)\<rparr>);
               (type, i) = randomElement (types config) rnd i0
           in if type = Some (js ''mixedOperations'') then
                (let (op', i) = randomElement [js ''+'', js ''-'', js ''*''] rnd i;
                     (num1, i) = randomInRange (range' config) rnd i;
                     (num2, i) = randomInRange (range' config) rnd i
                 in case op' of
                      None \<Rightarrow> Inl SyntaxError
                    | Some op' \<Rightarrow>
                        Inr (distorted
                          (js ''Calculate: '' @ toString num1 @ js '' '' @ op' @ js '' '' @ toString num2)
                          (of_int (evalBinary op' num1 num2)) type d rnd i))
              else if type = Some (js ''wordProblem'') then
                (let (problem, i) = randomElement problems rnd i;
                     (pA, i) = randomInRange (2, 10) rnd i;
                     (pB, i) = randomInRange (2, 10) rnd i
                 in case problem of
                      None \<Rightarrow> Inl TypeError
                    | Some (q, a) \<Rightarrow>
                        Inr (distorted
                          (replaceFirst (js ''{b}'') (toString pB)
                             (replaceFirst (js ''{a}'') (toString pA) q))
                          (of_int (a pA pB)) type d rnd i))
              else if type = Some (js ''complexAlgebra'') then
                (let (coeff, i) = randomInRange (2, 5) rnd i;
                     (constant, i) = randomInRange (1, 10) rnd i;
                     (x, i) = randomInRange (3, 8) rnd i;
                     result = coeff * x + constant
                 in Inr (distorted
                      (js ''Solve for x: '' @ toString coeff @ js ''x + '' @ toString constant
                         @ js '' = '' @ toString result)
                      (of_int (result - constant) / of_int coeff) type d rnd i))
              else if type = Some (js ''logicPuzzle'') then
                (let (puzzle, i) = randomElement puzzles rnd i
                 in case puzzle of
                      None \<Rightarrow> Inl TypeError
                    | Some (q, a) \<Rightarrow> Inr (distorted q (of_int a) type d rnd i))
              else Inr (generateBasicCaptcha type (range' config) rnd i))"

subsection \<open>\<open>GET /api/captcha\<close>\<close>

record captchaResponse =
  captchaId :: jsstring
  sentQuestion :: jsstring
  sentType :: "jsstring option"
  sentDifficulty :: jsstring

text \<open>
  The handler. \<open>newId\<close> is what \<open>uuid()\<close> returned, \<open>now\<close> and \<open>now'\<close> are the two
  readings of \<open>Date.now()\<close>, and \<open>rnd\<close> holds the values \<open>Math.random()\<close> returns from
  here on. An exception of the generator is caught: status 500 and the store as it was.
\<close>

definition api_captcha ::
  "request \<Rightarrow> jsstring option \<Rightarrow> jsstring \<Rightarrow> (nat \<Rightarrow> real) \<Rightarrow> int \<Rightarrow> int \<Rightarrow> captchaStore
     \<Rightarrow> (js_error + captchaResponse) \<times> captchaStore" where
  "api_captcha req requested newId rnd now now' store =
     (let contextDifficulty = determineDifficulty req requested
      in case generateCaptcha (Some contextDifficulty) rnd 0 of
           Inl e \<Rightarrow> (Inl e, store)
         | Inr (c, i) \<Rightarrow>
             (Inr \<lparr>captchaId = newId, sentQuestion = question c, sentType = captchaType c,
                   sentDifficulty = contextDifficulty\<rparr>,
              AList.update newId
                \<lparr>storedAnswer = answer c, createdAt = now, expiresAt = now' + expiration,
                 attempts = 0, storedDifficulty = contextDifficulty, storedType = captchaType c,
                 storedContext = \<lparr>ctxUserAgent = header_user_agent req, ctxIp = ip req,
                   ctxBotScore = botScore req, ctxBotSignals = botSignals req,
                   requestedDifficulty = requested, determinedDifficulty = contextDifficulty\<rparr>,
                 lastValidation = None\<rparr> store))"

subsection \<open>The \<open>finish\<close> callback of \<open>botDetection\<close>\<close>

text \<open>
  In the first server file the context of a stored challenge holds \<open>req.botSignals\<close>,
  the very array onto which the \<open>finish\<close> callback of the request pushes
  \<open>'fast-response'\<close> when the response took under 50 ms. So the callback of the request
  that created the challenge \<open>k\<close> changes the stored context, if the challenge is still
  in the store. (The second server file stores no signals.)
\<close>

definition finish_callback :: "jsstring \<Rightarrow> captchaStore \<Rightarrow> captchaStore" where
  "finish_callback k store =
     (case map_of store k of
        None \<Rightarrow> store
      | Some c \<Rightarrow>
          AList.update k
            (c\<lparr>storedContext := (storedContext c)
                \<lparr>ctxBotSignals := ctxBotSignals (storedContext c) @ [js ''fast-response'']\<rparr>\<rparr>)
            store)"

section \<open>The rate limiter\<close>

record rateLimitInfo =
  remaining :: int
  limit :: nat
  reset :: int

text \<open>
  The outcome of the middleware: the response 429 with its \<open>retryAfter\<close> (\<open>None\<close> where
  \<open>requests[0]\<close> is \<open>undefined\<close>), or \<open>next()\<close> with the information it attaches.
\<close>

datatype rateLimitResult = TooManyRequests "int option" | Next rateLimitInfo

text \<open>
  \<open>advancedRateLimit\<close>, with \<open>now\<close> the reading of \<open>Date.now()\<close>. \<open>requests\<close> is the
  array stored under the key, so \<open>requests.push(now)\<close> changes the stored sequence. The
  second server file has the same middleware without \<open>req.rateLimitInfo\<close>.
\<close>

definition advancedRateLimit ::
  "int \<Rightarrow> request \<Rightarrow> (jsstring \<rightharpoonup> int list) \<Rightarrow> rateLimitResult \<times> (jsstring \<rightharpoonup> int list)" where
  "advancedRateLimit now req requestCounts =
     (let configKey = (if path req = js ''/api/captcha'' then ''captchaGeneration''
                       else if path req = js ''/api/validate-captcha'' then ''captchaValidation''
                       else ''general'');
          limitConfig = (if configKey = ''captchaGeneration'' then captchaGeneration
                         else if configKey = ''captchaValidation'' then captchaValidation
                         else general);
          windowStart = now - windowMs limitConfig;
          key = ip req @ js '':'' @ js configKey;
          stored = (case requestCounts key of None \<Rightarrow> [] | Some ts \<Rightarrow> ts);
          requests = filter (\<lambda>time. time > windowStart) stored
      in if length requests \<ge> maxRequests limitConfig
         then (TooManyRequests
                 (case requests of
                    [] \<Rightarrow> None
                  | t # _ \<Rightarrow> Some \<lceil>of_int (t + windowMs limitConfig - now) / (1000 :: real)\<rceil>),
               requestCounts(key \<mapsto> requests))
         else (Next \<lparr>remaining = int (maxRequests limitConfig) - int (length (requests @ [now])),
                      limit = maxRequests limitConfig,
                      reset = hd (requests @ [now]) + windowMs limitConfig\<rparr>,
               requestCounts(key \<mapsto> requests @ [now])))"

section \<open>Notions the properties are stated with\<close>

text \<open>
  A validation call passes the input checks of the handler: the id is truthy, the
  answer is neither \<open>undefined\<close> nor \<open>null\<close>, and an answer that is a string has at
  most \<open>maxAnswerLength\<close> code units.
\<close>

definition wellShaped :: "jsvalue \<Rightarrow> jsvalue \<Rightarrow> bool" where
  "wellShaped cid submitted =
     (truthy cid \<and> submitted \<noteq> JUndefined \<and> submitted \<noteq> JNull \<and>
      (case submitted of JString s \<Rightarrow> length s \<le> maxAnswerLength | _ \<Rightarrow> True))"

text \<open>
  Validation calls for one id, one after the other: each is the two clock readings and
  the submitted value.
\<close>

fun validateAll ::
  "(int \<times> int \<times> jsvalue) list \<Rightarrow> jsvalue \<Rightarrow> captchaStore \<Rightarrow> validateResponse list \<times> captchaStore" where
  "validateAll [] cid store = ([], store)"
| "validateAll ((now, now', submitted) # calls) cid store =
     (let (r, store') = validate_captcha now now' cid submitted store;
          (rs, store'') = validateAll calls cid store'
      in (r # rs, store''))"

text \<open>Requests of one client to one path at the given times, one after the other.\<close>

fun rateLimitAll ::
  "int list \<Rightarrow> request \<Rightarrow> (jsstring \<rightharpoonup> int list) \<Rightarrow> rateLimitResult list \<times> (jsstring \<rightharpoonup> int list)" where
  "rateLimitAll [] req requestCounts = ([], requestCounts)"
| "rateLimitAll (now # later) req requestCounts =
     (let (r, requestCounts') = advancedRateLimit now req requestCounts;
          (rs, requestCounts'') = rateLimitAll later req requestCounts'
      in (r # rs, requestCounts''))"

fun isNext :: "rateLimitResult \<Rightarrow> bool" where
  "isNext (Next info) = True"
| "isNext (TooManyRequests retryAfter) = False"

text \<open>The key and the limits \<open>advancedRateLimit\<close> uses for a request.\<close>

definition limitOf :: "request \<Rightarrow> limitConfig" where
  "limitOf req = (if path req = js ''/api/captcha'' then captchaGeneration
                  else if path req = js ''/api/validate-captcha'' then captchaValidation
                  else general)"

definition keyOf :: "request \<Rightarrow> jsstring" where
  "keyOf req = ip req @ js '':'' @
     js (if path req = js ''/api/captcha'' then ''captchaGeneration''
         else if path req = js ''/api/validate-captcha'' then ''captchaValidation''
         else ''general'')"

text \<open>
  The states of the store the server reaches: empty at start, then any handler, the
  cleanup or a \<open>finish\<close> callback, with any arguments. The validation step includes the
  calls in which \<open>parseInt\<close> throws.
\<close>

inductive reachable :: "captchaStore \<Rightarrow> bool" where
  start: "reachable []"
| create: "reachable store \<Longrightarrow> reachable (snd (api_captcha req requested newId rnd now now' store))"
| validate: "reachable store \<Longrightarrow> reachable (snd (validate_captcha now now' cid submitted store))"
| discard: "reachable store \<Longrightarrow> reachable (snd (captcha_fallback previous cid store))"
| sweep: "reachable store \<Longrightarrow> reachable (cleanup now store)"
| finish: "reachable store \<Longrightarrow> reachable (finish_callback k store)"

definition storeInvariant :: "captchaStore \<Rightarrow> bool" where
  "storeInvariant store =
     (distinct (map fst store) \<and> list_all (\<lambda>(k, c). attempts c \<le> maxAttempts) store)"

text \<open>
  The sequence stored for the key of a request, and what \<open>advancedRateLimit\<close> retains of
  it at the time \<open>now\<close> (its variable \<open>requests\<close> before the push).
\<close>

definition storedRequests :: "request \<Rightarrow> (jsstring \<rightharpoonup> int list) \<Rightarrow> int list" where
  "storedRequests req requestCounts =
     (case requestCounts (keyOf req) of None \<Rightarrow> [] | Some ts \<Rightarrow> ts)"

definition retained :: "int \<Rightarrow> request \<Rightarrow> (jsstring \<rightharpoonup> int list) \<Rightarrow> int list" where
  "retained now req requestCounts =
     filter (\<lambda>time. time > now - windowMs (limitOf req)) (storedRequests req requestCounts)"

subsection \<open>Concrete inputs\<close>

definition exampleChallenge :: captchaData where
  "exampleChallenge = \<lparr>storedAnswer = 7, createdAt = 1000, expiresAt = 601000, attempts = 0,
     storedDifficulty = js ''easy'', storedType = None,
     storedContext = \<lparr>ctxUserAgent = None, ctxIp = js ''203.0.113.7'', ctxBotScore = 13,
       ctxBotSignals = [js ''missing-user-agent'', js ''suspicious-accept''],
       requestedDifficulty = Some (js ''easy''), determinedDifficulty = js ''easy''\<rparr>,
     lastValidation = None\<rparr>"

definition exampleId :: jsvalue where
  "exampleId = JString (js ''c0ffee'')"

definition exampleStore :: captchaStore where
  "exampleStore = [(js ''c0ffee'', exampleChallenge)]"

text \<open>A client whose user agent matches six of the bot patterns and that sends no accept header.\<close>

definition botRequest :: request where
  "botRequest = \<lparr>header_user_agent = Some (js ''python-requests bot crawl spider scrape curl''),
     header_accept = None, ip = js ''203.0.113.7'', path = js ''/api/captcha'', botScore = 0,
     botSignals = []\<rparr>"

text \<open>
  Three sequences of draws: the first gives the addition of 3 and 4 at difficulty easy,
  the second a mixed operation \<open>1 - 20\<close> at difficulty hard, the third selects the
  middle element of three.
\<close>

definition drawsThreeFour :: "nat \<Rightarrow> real" where
  "drawsThreeFour i = (if i = 0 then 0 else if i = 1 then 1 / 4 else 7 / 20)"

definition drawsOneTwenty :: "nat \<Rightarrow> real" where
  "drawsOneTwenty i = (if i = 2 then 0 else if i = 3 then 19 / 20 else 1 / 2)"

definition drawsHalf :: "nat \<Rightarrow> real" where
  "drawsHalf i = 1 / 2"

section \<open>Properties\<close>

subsection \<open>Evaluation rules\<close>

lemma digitsOf_small: "n < 10 \<Longrightarrow> digitsOf n = [48 + n]"
  by simp

lemma digitsOf_big: "\<not> n < 10 \<Longrightarrow> digitsOf n = digitsOf (n div 10) @ [48 + n mod 10]"
  by (subst digitsOf.simps) simp

declare digitsOf.simps [simp del]

lemmas toString_eval = toString_def digitsOf_small digitsOf_big

lemmas parseInt_eval = parseInt_def parseIntString_def isWhiteSpace_def digitValue_def
  toString_eval

lemmas regex_eval = regexTest_def includes_str_def canonicalize_def orEmpty_def

subsection \<open>The fallback difficulty\<close>

text \<open>
  C1 (as the code has it): the fallback handler moves the difficulty one step toward
  \<open>easy\<close> along easy < medium < hard < extreme. From extreme it redirects to hard, from
  hard to medium, from medium and from easy to easy, and with no previous difficulty, or
  one that is not a level, to easy; whatever the previous challenge id and the store.
\<close>

theorem fallback_steps_toward_easy:
  "fst (captcha_fallback previousDifficulty previousCaptchaId store) =
     (case previousDifficulty of
        None \<Rightarrow> js ''easy''
      | Some p \<Rightarrow> if p = js ''extreme'' then js ''hard''
                  else if p = js ''hard'' then js ''medium''
                  else js ''easy'')"
  by (auto simp: captcha_fallback_def fallbackDifficulty_def Let_def split: option.splits)

theorem fallback_steps_toward_easy_witness:
  "fst (captcha_fallback (Some (js ''extreme'')) exampleId exampleStore) = js ''hard'' \<and>
   fst (captcha_fallback (Some (js ''medium'')) JUndefined []) = js ''easy'' \<and>
   fst (captcha_fallback None JUndefined []) = js ''easy''"
  using fallback_steps_toward_easy [of "Some (js ''extreme'')" exampleId exampleStore]
    fallback_steps_toward_easy [of "Some (js ''medium'')" JUndefined "[]"]
    fallback_steps_toward_easy [of None JUndefined "[]"]
  by simp

text \<open>
  C1 as stated fails: from medium the handler does not go to hard, and from extreme it
  does not stay at extreme.
\<close>

theorem fallback_escalation_counterexample:
  "fallbackDifficulty (Some (js ''medium'')) = js ''easy'' \<and>
   fallbackDifficulty (Some (js ''medium'')) \<noteq> js ''hard'' \<and>
   fallbackDifficulty (Some (js ''extreme'')) = js ''hard'' \<and>
   fallbackDifficulty (Some (js ''extreme'')) \<noteq> js ''extreme''"
  by (simp add: fallbackDifficulty_def)

subsection \<open>The difficulty chosen from the bot score\<close>

lemma determineDifficulty_extreme_only_requested:
  "determineDifficulty req requested = js ''extreme'' \<Longrightarrow> requested = Some (js ''extreme'')"
  by (auto simp: determineDifficulty_def Let_def allowedDifficulties_def
      split: option.splits if_splits)

lemma determineDifficulty_above_15_is_hard:
  assumes "\<not> regexTest [''Mobi'', ''Android'', ''iPhone'', ''iPad''] (orEmpty (header_user_agent req))"
    and "\<not> regexTest [''Tablet'', ''iPad''] (orEmpty (header_user_agent req))"
    and "botScore req > 15"
  shows "determineDifficulty req None = js ''hard''"
  using assms by (simp add: determineDifficulty_def Let_def)

text \<open>
  C2: for the request \<open>botRequest\<close>, with no requested difficulty, the middleware
  computes the score 33, which is above 25, and \<open>determineDifficulty\<close> returns hard: the
  test for extreme stands behind the test for hard and is never reached.
\<close>

theorem determineDifficulty_score_33_is_hard:
  "botScore (botDetection botRequest) = 33 \<and>
   determineDifficulty (botDetection botRequest) None = js ''hard''"
  by (simp add: determineDifficulty_def botDetection_def botRequest_def botPatterns_def regex_eval)

subsection \<open>Validation\<close>

lemma store_get_delete: "store_get (store_delete v store) v = None"
  by (cases v) (simp_all add: delete_conv')

lemma store_get_set: "store_get store v = Some c \<Longrightarrow> store_get (store_set v d store) v = Some d"
  by (cases v) (simp_all add: update_conv')

lemma validate_unknown:
  "wellShaped cid submitted \<Longrightarrow> store_get store cid = None \<Longrightarrow>
   validate_captcha now now' cid submitted store = (rejected 200 ''Invalid or expired CAPTCHA'', store)"
  by (auto simp: validate_captcha_def wellShaped_def split: jsvalue.splits)

lemma validate_correct:
  assumes "store_get store cid = Some c" and "wellShaped cid submitted"
    and "\<not> now > expiresAt c" and "attempts c < maxAttempts"
    and "parseInt submitted = Inr (Some (storedAnswer c))"
  shows "validate_captcha now now' cid submitted store =
     (\<lparr>statusCode = 200, success = True, valid = True, reason = None,
       respAttempts = Some (attempts c + 1), respDifficulty = Some (storedDifficulty c)\<rparr>,
      store_delete cid store)"
  using assms by (auto simp: validate_captcha_def wellShaped_def Let_def split: jsvalue.splits)

lemma validate_wrong:
  assumes "store_get store cid = Some c" and "wellShaped cid submitted"
    and "\<not> now > expiresAt c" and "attempts c < maxAttempts"
    and "parseInt submitted = Inr parsed" and "parsed \<noteq> Some (storedAnswer c)"
  shows "validate_captcha now now' cid submitted store =
     (\<lparr>statusCode = 200, success = True, valid = False, reason = Some ''Wrong answer'',
       respAttempts = Some (attempts c + 1), respDifficulty = Some (storedDifficulty c)\<rparr>,
      store_set cid (c\<lparr>attempts := attempts c + 1, lastValidation := Some
         \<lparr>timestamp = now', wasValid = False, userAnswer = submitted,
          actualAnswer = storedAnswer c\<rparr>\<rparr>) store)"
  using assms by (auto simp: validate_captcha_def wellShaped_def Let_def split: jsvalue.splits)

lemma validate_throws:
  assumes "store_get store cid = Some c" and "wellShaped cid submitted"
    and "\<not> now > expiresAt c" and "attempts c < maxAttempts"
    and "parseInt submitted = Inl e"
  shows "validate_captcha now now' cid submitted store =
     (\<lparr>statusCode = 500, success = False, valid = False, reason = Some ''Validation error'',
       respAttempts = None, respDifficulty = None\<rparr>,
      store_set cid (c\<lparr>attempts := attempts c + 1\<rparr>) store)"
  using assms
  by (auto simp: validate_captcha_def wellShaped_def rejected_def Let_def split: jsvalue.splits)

text \<open>
  What a validation attempt that is not correct leaves of the challenge, and the
  response it gets: with a value that \<open>parseInt\<close> reads, the record of the attempt and
  "Wrong answer"; with one on which it throws, no record and "Validation error".
\<close>

lemma validate_not_correct:
  assumes "store_get store cid = Some c" and "wellShaped cid submitted"
    and "\<not> now > expiresAt c" and "attempts c < maxAttempts"
    and "parseInt submitted \<noteq> Inr (Some (storedAnswer c))"
  shows "validate_captcha now now' cid submitted store =
     (case parseInt submitted of
        Inl e \<Rightarrow>
          (\<lparr>statusCode = 500, success = False, valid = False, reason = Some ''Validation error'',
            respAttempts = None, respDifficulty = None\<rparr>,
           store_set cid (c\<lparr>attempts := attempts c + 1\<rparr>) store)
      | Inr parsed \<Rightarrow>
          (\<lparr>statusCode = 200, success = True, valid = False, reason = Some ''Wrong answer'',
            respAttempts = Some (attempts c + 1), respDifficulty = Some (storedDifficulty c)\<rparr>,
           store_set cid (c\<lparr>attempts := attempts c + 1, lastValidation := Some
             \<lparr>timestamp = now', wasValid = False, userAnswer = submitted,
              actualAnswer = storedAnswer c\<rparr>\<rparr>) store))"
proof (cases "parseInt submitted")
  case (Inl e)
  then show ?thesis using validate_throws[OF assms(1-4) Inl, of now'] by simp
next
  case (Inr parsed)
  with assms(5) have "parsed \<noteq> Some (storedAnswer c)" by simp
  then show ?thesis using validate_wrong[OF assms(1-4) Inr, of now'] Inr by simp
qed

lemma validate_exhausted:
  assumes "store_get store cid = Some c" and "wellShaped cid submitted"
    and "\<not> now > expiresAt c" and "attempts c \<ge> maxAttempts"
  shows "validate_captcha now now' cid submitted store =
     (rejected 200 ''Too many attempts'', store_delete cid store)"
  using assms by (auto simp: validate_captcha_def wellShaped_def Let_def split: jsvalue.splits)

lemma validateAll_wrong:
  assumes "store_get store cid = Some c"
    and "attempts c + length calls \<le> maxAttempts"
    and "list_all (\<lambda>(t, t', a). wellShaped cid a \<and> \<not> t > expiresAt c
           \<and> parseInt a \<noteq> Inr (Some (storedAnswer c))) calls"
  shows "\<exists>c'. store_get (snd (validateAll calls cid store)) cid = Some c' \<and>
           attempts c' = attempts c + length calls \<and> expiresAt c' = expiresAt c \<and>
           storedAnswer c' = storedAnswer c \<and>
           list_all (\<lambda>r. \<not> valid r \<and>
               (reason r = Some ''Wrong answer'' \<or> reason r = Some ''Validation error''))
             (fst (validateAll calls cid store))"
  using assms
proof (induction calls arbitrary: store c)
  case Nil
  then show ?case by simp
next
  case (Cons call calls)
  obtain t t' a where call: "call = (t, t', a)" by (cases call) auto
  have w: "wellShaped cid a" "\<not> t > expiresAt c" "parseInt a \<noteq> Inr (Some (storedAnswer c))"
    using Cons.prems(3) call by auto
  have lt: "attempts c < maxAttempts" using Cons.prems(2) by simp
  note step = validate_not_correct[OF Cons.prems(1) w(1,2) lt w(3), of t']
  obtain r c1 where r: "validate_captcha t t' cid a store = (r, store_set cid c1 store)"
      "\<not> valid r" "reason r = Some ''Wrong answer'' \<or> reason r = Some ''Validation error''"
      "attempts c1 = attempts c + 1" "expiresAt c1 = expiresAt c" "storedAnswer c1 = storedAnswer c"
    using step by (cases "parseInt a") auto
  have get1: "store_get (store_set cid c1 store) cid = Some c1"
    using Cons.prems(1) by (rule store_get_set)
  have "\<exists>c'. store_get (snd (validateAll calls cid (store_set cid c1 store))) cid = Some c' \<and>
           attempts c' = attempts c1 + length calls \<and> expiresAt c' = expiresAt c1 \<and>
           storedAnswer c' = storedAnswer c1 \<and>
           list_all (\<lambda>r. \<not> valid r \<and>
               (reason r = Some ''Wrong answer'' \<or> reason r = Some ''Validation error''))
             (fst (validateAll calls cid (store_set cid c1 store)))"
    using Cons.prems(2,3) r(4,5,6) by (intro Cons.IH[OF get1]) auto
  then show ?case using r by (auto simp: call split_def Let_def)
qed

lemmas example_eval = exampleStore_def exampleId_def exampleChallenge_def validate_captcha_def
  wellShaped_def maxAttempts_def maxAnswerLength_def rejected_def Let_def parseInt_eval

text \<open>
  C3 (as the code has it): for every stored challenge that is not expired and has had
  fewer than \<open>maxAttempts\<close> attempts, a validation call that passes the input checks
  and whose value parses to the stored answer returns \<open>valid = true\<close> and removes the
  challenge; a second validation with the same id and value, at any later time, returns
  \<open>valid = false\<close> with the reason "Invalid or expired CAPTCHA" and leaves the store as
  it is.
\<close>

theorem validate_correct_once:
  assumes "store_get store cid = Some c" and "wellShaped cid submitted"
    and "\<not> now > expiresAt c" and "attempts c < maxAttempts"
    and "parseInt submitted = Inr (Some (storedAnswer c))"
  shows "valid (fst (validate_captcha now now' cid submitted store)) \<and>
    store_get (snd (validate_captcha now now' cid submitted store)) cid = None \<and>
    \<not> valid (fst (validate_captcha later later' cid submitted
                  (snd (validate_captcha now now' cid submitted store)))) \<and>
    reason (fst (validate_captcha later later' cid submitted
                  (snd (validate_captcha now now' cid submitted store))))
      = Some ''Invalid or expired CAPTCHA'' \<and>
    snd (validate_captcha later later' cid submitted
           (snd (validate_captcha now now' cid submitted store)))
      = snd (validate_captcha now now' cid submitted store)"
  using validate_correct[OF assms, of now']
    validate_unknown[OF assms(2) store_get_delete[of cid store], of later later']
  by (simp add: store_get_delete rejected_def)

theorem validate_correct_once_witness:
  "valid (fst (validate_captcha 2000 2001 exampleId (JString (js ''7'')) exampleStore)) \<and>
   store_get (snd (validate_captcha 2000 2001 exampleId (JString (js ''7'')) exampleStore))
     exampleId = None \<and>
   reason (fst (validate_captcha 3000 3001 exampleId (JString (js ''7''))
           (snd (validate_captcha 2000 2001 exampleId (JString (js ''7'')) exampleStore))))
     = Some ''Invalid or expired CAPTCHA''"
proof -
  have h: "store_get exampleStore exampleId = Some exampleChallenge"
    "wellShaped exampleId (JString (js ''7''))"
    "\<not> 2000 > expiresAt exampleChallenge" "attempts exampleChallenge < maxAttempts"
    "parseInt (JString (js ''7'')) = Inr (Some (storedAnswer exampleChallenge))"
    by (simp_all add: example_eval)
  show ?thesis
    using validate_correct_once [OF h, of 2001 3000 3001] by simp
qed

text \<open>
  C3 as stated fails for a stored challenge that is expired and not yet cleaned up,
  and for one that has had \<open>maxAttempts\<close> wrong answers: the correct answer is then
  refused.
\<close>

theorem validate_correct_refused_counterexample:
  "store_get exampleStore exampleId = Some exampleChallenge \<and>
   parseInt (JString (js ''7'')) = Inr (Some (storedAnswer exampleChallenge)) \<and>
   fst (validate_captcha 700000 700000 exampleId (JString (js ''7'')) exampleStore)
     = rejected 200 ''CAPTCHA expired'' \<and>
   map_option attempts (store_get (snd (validateAll
       [(2000, 2000, JString (js ''1'')), (3000, 3000, JString (js ''2'')),
        (4000, 4000, JString (js ''3''))] exampleId exampleStore)) exampleId) = Some 3 \<and>
   fst (validate_captcha 5000 5000 exampleId (JString (js ''7''))
     (snd (validateAll
       [(2000, 2000, JString (js ''1'')), (3000, 3000, JString (js ''2'')),
        (4000, 4000, JString (js ''3''))] exampleId exampleStore)))
     = rejected 200 ''Too many attempts'' \<and>
   \<not> valid (rejected 200 ''CAPTCHA expired'') \<and> \<not> valid (rejected 200 ''Too many attempts'')"
  by (simp add: example_eval)

text \<open>
  C4: for every stored, unexpired challenge \<open>c\<close> and every validation attempt (a call
  that passes the input checks), the count compared with \<open>maxAttempts\<close> is the
  incremented one, \<open>attempts c + 1\<close>. When it is at most \<open>maxAttempts\<close> and the answer is
  not the correct one, the response has \<open>valid = false\<close> and the challenge stays in the
  store with the incremented count: with the reason "Wrong answer", the new count and a
  record of the attempt where \<open>parseInt\<close> reads the value, with status 500 and
  "Validation error" where it throws. When it is at most \<open>maxAttempts\<close> and the answer is
  correct, the response reports the incremented count. When it exceeds \<open>maxAttempts\<close>,
  the response is "Too many attempts" with \<open>valid = false\<close>, the challenge is deleted, and
  every later attempt on the id reports "Invalid or expired CAPTCHA". Hence, for a
  challenge with no attempts yet, after \<open>maxAttempts\<close> attempts that are not correct
  (each answered with \<open>valid = false\<close>) the stored count is \<open>maxAttempts\<close> and the next
  attempt, whatever its answer, is the one refused with "Too many attempts".
\<close>

theorem attempts_incremented_then_limited:
  assumes "store_get store cid = Some c" and "wellShaped cid submitted"
    and "\<not> now > expiresAt c"
  shows "(attempts c + 1 \<le> maxAttempts \<and> parseInt submitted \<noteq> Inr (Some (storedAnswer c)) \<longrightarrow>
       fst (validate_captcha now now' cid submitted store) =
         (case parseInt submitted of
            Inl e \<Rightarrow>
              \<lparr>statusCode = 500, success = False, valid = False,
               reason = Some ''Validation error'', respAttempts = None, respDifficulty = None\<rparr>
          | Inr parsed \<Rightarrow>
              \<lparr>statusCode = 200, success = True, valid = False, reason = Some ''Wrong answer'',
               respAttempts = Some (attempts c + 1),
               respDifficulty = Some (storedDifficulty c)\<rparr>) \<and>
       \<not> valid (fst (validate_captcha now now' cid submitted store)) \<and>
       store_get (snd (validate_captcha now now' cid submitted store)) cid =
         Some (case parseInt submitted of
                 Inl e \<Rightarrow> c\<lparr>attempts := attempts c + 1\<rparr>
               | Inr parsed \<Rightarrow>
                   c\<lparr>attempts := attempts c + 1, lastValidation := Some
                     \<lparr>timestamp = now', wasValid = False, userAnswer = submitted,
                      actualAnswer = storedAnswer c\<rparr>\<rparr>) \<and>
       map_option attempts (store_get (snd (validate_captcha now now' cid submitted store)) cid)
         = Some (attempts c + 1))
    \<and> (attempts c + 1 \<le> maxAttempts \<and> parseInt submitted = Inr (Some (storedAnswer c)) \<longrightarrow>
       valid (fst (validate_captcha now now' cid submitted store)) \<and>
       respAttempts (fst (validate_captcha now now' cid submitted store))
         = Some (attempts c + 1))
    \<and> (attempts c + 1 > maxAttempts \<longrightarrow>
       fst (validate_captcha now now' cid submitted store) =
         \<lparr>statusCode = 200, success = False, valid = False, reason = Some ''Too many attempts'',
          respAttempts = None, respDifficulty = None\<rparr> \<and>
       store_get (snd (validate_captcha now now' cid submitted store)) cid = None \<and>
       (\<forall>later later' again. wellShaped cid again \<longrightarrow>
          fst (validate_captcha later later' cid again
                 (snd (validate_captcha now now' cid submitted store))) =
            \<lparr>statusCode = 200, success = False, valid = False,
             reason = Some ''Invalid or expired CAPTCHA'',
             respAttempts = None, respDifficulty = None\<rparr>))
    \<and> (attempts c = 0 \<and> length calls = maxAttempts \<and>
        list_all (\<lambda>(t, t', a). wellShaped cid a \<and> \<not> t > expiresAt c
           \<and> parseInt a \<noteq> Inr (Some (storedAnswer c))) calls \<longrightarrow>
       list_all (\<lambda>r. \<not> valid r \<and>
           (reason r = Some ''Wrong answer'' \<or> reason r = Some ''Validation error''))
         (fst (validateAll calls cid store)) \<and>
       map_option attempts (store_get (snd (validateAll calls cid store)) cid)
         = Some maxAttempts \<and>
       reason (fst (validate_captcha now now' cid submitted (snd (validateAll calls cid store))))
         = Some ''Too many attempts'' \<and>
       \<not> valid (fst (validate_captcha now now' cid submitted
                     (snd (validateAll calls cid store)))) \<and>
       store_get (snd (validate_captcha now now' cid submitted
                     (snd (validateAll calls cid store)))) cid = None)"
proof (intro conjI impI)
  assume a: "attempts c + 1 \<le> maxAttempts \<and> parseInt submitted \<noteq> Inr (Some (storedAnswer c))"
  then have lt: "attempts c < maxAttempts" and ne: "parseInt submitted \<noteq> Inr (Some (storedAnswer c))"
    by simp_all
  note step = validate_not_correct[OF assms lt ne, of now']
  show "fst (validate_captcha now now' cid submitted store) =
         (case parseInt submitted of
            Inl e \<Rightarrow>
              \<lparr>statusCode = 500, success = False, valid = False,
               reason = Some ''Validation error'', respAttempts = None, respDifficulty = None\<rparr>
          | Inr parsed \<Rightarrow>
              \<lparr>statusCode = 200, success = True, valid = False, reason = Some ''Wrong answer'',
               respAttempts = Some (attempts c + 1),
               respDifficulty = Some (storedDifficulty c)\<rparr>)"
    by (simp add: step split: sum.splits)
  show "\<not> valid (fst (validate_captcha now now' cid submitted store))"
    by (simp add: step split: sum.splits)
  show g: "store_get (snd (validate_captcha now now' cid submitted store)) cid =
         Some (case parseInt submitted of
                 Inl e \<Rightarrow> c\<lparr>attempts := attempts c + 1\<rparr>
               | Inr parsed \<Rightarrow>
                   c\<lparr>attempts := attempts c + 1, lastValidation := Some
                     \<lparr>timestamp = now', wasValid = False, userAnswer = submitted,
                      actualAnswer = storedAnswer c\<rparr>\<rparr>)"
    by (simp add: step store_get_set[OF assms(1)] split: sum.splits)
  show "map_option attempts (store_get (snd (validate_captcha now now' cid submitted store)) cid)
         = Some (attempts c + 1)"
    by (simp add: g split: sum.splits)
next
  assume a: "attempts c + 1 \<le> maxAttempts \<and> parseInt submitted = Inr (Some (storedAnswer c))"
  then have lt: "attempts c < maxAttempts" and eq: "parseInt submitted = Inr (Some (storedAnswer c))"
    by simp_all
  note step = validate_correct[OF assms lt eq, of now']
  show "valid (fst (validate_captcha now now' cid submitted store))" by (simp add: step)
  show "respAttempts (fst (validate_captcha now now' cid submitted store)) = Some (attempts c + 1)"
    by (simp add: step)
next
  assume "attempts c + 1 > maxAttempts"
  then have ge: "attempts c \<ge> maxAttempts" by simp
  note step = validate_exhausted[OF assms ge, of now']
  show "fst (validate_captcha now now' cid submitted store) =
         \<lparr>statusCode = 200, success = False, valid = False, reason = Some ''Too many attempts'',
          respAttempts = None, respDifficulty = None\<rparr>"
    by (simp add: step rejected_def)
  show "store_get (snd (validate_captcha now now' cid submitted store)) cid = None"
    by (simp add: step store_get_delete)
  show "\<forall>later later' again. wellShaped cid again \<longrightarrow>
          fst (validate_captcha later later' cid again
                 (snd (validate_captcha now now' cid submitted store))) =
            \<lparr>statusCode = 200, success = False, valid = False,
             reason = Some ''Invalid or expired CAPTCHA'',
             respAttempts = None, respDifficulty = None\<rparr>"
    by (simp add: step validate_unknown store_get_delete rejected_def)
next
  assume a: "attempts c = 0 \<and> length calls = maxAttempts \<and>
        list_all (\<lambda>(t, t', a). wellShaped cid a \<and> \<not> t > expiresAt c
           \<and> parseInt a \<noteq> Inr (Some (storedAnswer c))) calls"
  then have le: "attempts c + length calls \<le> maxAttempts" by simp
  from a have wrong: "list_all (\<lambda>(t, t', a). wellShaped cid a \<and> \<not> t > expiresAt c
           \<and> parseInt a \<noteq> Inr (Some (storedAnswer c))) calls" by simp
  from validateAll_wrong[OF assms(1) le wrong]
  obtain c' where c': "store_get (snd (validateAll calls cid store)) cid = Some c'"
      "attempts c' = attempts c + length calls" "expiresAt c' = expiresAt c"
      "list_all (\<lambda>r. \<not> valid r \<and>
           (reason r = Some ''Wrong answer'' \<or> reason r = Some ''Validation error''))
         (fst (validateAll calls cid store))"
    by blast
  have ge: "attempts c' \<ge> maxAttempts" using c'(2) a by simp
  have unexp: "\<not> now > expiresAt c'" using c'(3) assms(3) by simp
  note step = validate_exhausted[OF c'(1) assms(2) unexp ge, of now']
  show "list_all (\<lambda>r. \<not> valid r \<and>
           (reason r = Some ''Wrong answer'' \<or> reason r = Some ''Validation error''))
         (fst (validateAll calls cid store))" by (rule c'(4))
  show "map_option attempts (store_get (snd (validateAll calls cid store)) cid)
         = Some maxAttempts" using c'(1,2) a by simp
  show "reason (fst (validate_captcha now now' cid submitted (snd (validateAll calls cid store))))
         = Some ''Too many attempts''" by (simp add: step rejected_def)
  show "\<not> valid (fst (validate_captcha now now' cid submitted
                     (snd (validateAll calls cid store))))" by (simp add: step rejected_def)
  show "store_get (snd (validate_captcha now now' cid submitted
                     (snd (validateAll calls cid store)))) cid = None"
    by (simp add: step store_get_delete)
qed

theorem attempts_incremented_then_limited_witness:
  "map_option attempts (store_get (snd (validate_captcha 2000 2001 exampleId (JString (js ''8''))
      exampleStore)) exampleId) = Some 1 \<and>
   fst (validate_captcha 2000 2001 exampleId (JObject [(js ''toString'', JNumber (js ''1''))])
      exampleStore) =
     \<lparr>statusCode = 500, success = False, valid = False, reason = Some ''Validation error'',
      respAttempts = None, respDifficulty = None\<rparr> \<and>
   map_option attempts (store_get (snd (validate_captcha 2000 2001 exampleId
      (JObject [(js ''toString'', JNumber (js ''1''))]) exampleStore)) exampleId) = Some 1 \<and>
   valid (fst (validate_captcha 2000 2001 exampleId (JNumber (js ''7'')) exampleStore)) \<and>
   reason (fst (validate_captcha 5000 5001 exampleId (JString (js ''7''))
      (snd (validateAll [(2000, 2001, JString (js ''1'')),
        (3000, 3001, JObject [(js ''toString'', JNumber (js ''1''))]),
        (4000, 4001, JNumber (js ''1e+21''))] exampleId exampleStore))))
     = Some ''Too many attempts'' \<and>
   store_get (snd (validate_captcha 5000 5001 exampleId (JString (js ''7''))
      (snd (validateAll [(2000, 2001, JString (js ''1'')),
        (3000, 3001, JObject [(js ''toString'', JNumber (js ''1''))]),
        (4000, 4001, JNumber (js ''1e+21''))] exampleId exampleStore)))) exampleId = None \<and>
   reason (fst (validate_captcha 6000 6001 exampleId (JString (js ''7''))
      (snd (validate_captcha 5000 5001 exampleId (JString (js ''7''))
        [(js ''c0ffee'', exampleChallenge\<lparr>attempts := 3\<rparr>)]))))
     = Some ''Invalid or expired CAPTCHA''"
proof -
  let ?obj = "JObject [(js ''toString'', JNumber (js ''1''))]"
  let ?calls = "[(2000, 2001, JString (js ''1'')), (3000, 3001, ?obj),
        (4000, 4001, JNumber (js ''1e+21''))] :: (int \<times> int \<times> jsvalue) list"
  have h: "store_get exampleStore exampleId = Some exampleChallenge"
    "wellShaped exampleId (JString (js ''8''))" "\<not> 2000 > expiresAt exampleChallenge"
    by (simp_all add: example_eval)
  have ho: "wellShaped exampleId ?obj" by (simp add: example_eval)
  have hn: "wellShaped exampleId (JNumber (js ''7''))" by (simp add: example_eval)
  have h7: "wellShaped exampleId (JString (js ''7''))" "\<not> 5000 > expiresAt exampleChallenge"
    by (simp_all add: example_eval)
  have first: "attempts exampleChallenge + 1 \<le> maxAttempts \<and>
      parseInt (JString (js ''8'')) \<noteq> Inr (Some (storedAnswer exampleChallenge))"
    by (simp add: example_eval)
  have thrown: "attempts exampleChallenge + 1 \<le> maxAttempts \<and>
      parseInt ?obj \<noteq> Inr (Some (storedAnswer exampleChallenge))"
    by (simp add: example_eval)
  have po: "parseInt ?obj = Inl TypeError" by (simp add: parseInt_def)
  have right: "attempts exampleChallenge + 1 \<le> maxAttempts \<and>
      parseInt (JNumber (js ''7'')) = Inr (Some (storedAnswer exampleChallenge))"
    by (simp add: example_eval)
  have run: "attempts exampleChallenge = 0 \<and> length ?calls = maxAttempts \<and>
      list_all (\<lambda>(t, t', a). wellShaped exampleId a \<and> \<not> t > expiresAt exampleChallenge
           \<and> parseInt a \<noteq> Inr (Some (storedAnswer exampleChallenge))) ?calls"
    by (simp add: example_eval)
  have h3: "store_get [(js ''c0ffee'', exampleChallenge\<lparr>attempts := 3\<rparr>)] exampleId
      = Some (exampleChallenge\<lparr>attempts := 3\<rparr>)"
    "\<not> 5000 > expiresAt (exampleChallenge\<lparr>attempts := 3\<rparr>)"
    "attempts (exampleChallenge\<lparr>attempts := 3\<rparr>) + 1 > maxAttempts"
    by (simp_all add: example_eval)
  note A = attempts_incremented_then_limited
    [OF h, of 2001 ?calls, THEN conjunct1, THEN mp, OF first]
  note T = attempts_incremented_then_limited
    [OF h(1) ho h(3), of 2001 ?calls, THEN conjunct1, THEN mp, OF thrown]
  note R = attempts_incremented_then_limited
    [OF h(1) hn h(3), of 2001 ?calls, THEN conjunct2, THEN conjunct1, THEN mp, OF right,
     THEN conjunct1]
  note B = attempts_incremented_then_limited
    [OF h(1) h7, of 5001 ?calls, THEN conjunct2, THEN conjunct2, THEN conjunct2, THEN mp, OF run]
  note C = attempts_incremented_then_limited
    [OF h3(1) h7(1) h3(2), of 5001 "[]", THEN conjunct2, THEN conjunct2, THEN conjunct1,
     THEN mp, OF h3(3), THEN conjunct2, THEN conjunct2, rule_format, OF h7(1), of 6000 6001]
  have a: "map_option attempts (store_get (snd (validate_captcha 2000 2001 exampleId
      (JString (js ''8'')) exampleStore)) exampleId) = Some 1"
    using A[THEN conjunct2, THEN conjunct2, THEN conjunct2] by (simp add: exampleChallenge_def)
  have t: "fst (validate_captcha 2000 2001 exampleId ?obj exampleStore) =
     \<lparr>statusCode = 500, success = False, valid = False, reason = Some ''Validation error'',
      respAttempts = None, respDifficulty = None\<rparr>"
    "map_option attempts (store_get (snd (validate_captcha 2000 2001 exampleId ?obj
      exampleStore)) exampleId) = Some 1"
    using T[THEN conjunct1] T[THEN conjunct2, THEN conjunct2, THEN conjunct2] po
    by (simp_all add: exampleChallenge_def)
  show ?thesis using a t R B C by simp
qed

text \<open>
  C6 (as the code has it): a validation call whose id is absent (or otherwise falsy),
  whose value is \<open>undefined\<close> or \<open>null\<close>, or whose value is a string of more than
  \<open>maxAnswerLength\<close> = 10 code units is rejected with a reason ("Missing captchaId or
  answer" or "Answer too long"), and the store, with every challenge and attempt count in
  it, is as before.
\<close>

theorem shape_rejection_leaves_store:
  assumes "\<not> truthy cid \<or> submitted = JUndefined \<or> submitted = JNull
     \<or> (\<exists>s. submitted = JString s \<and> length s > maxAnswerLength)"
  shows "snd (validate_captcha now now' cid submitted store) = store \<and>
    \<not> success (fst (validate_captcha now now' cid submitted store)) \<and>
    \<not> valid (fst (validate_captcha now now' cid submitted store)) \<and>
    (reason (fst (validate_captcha now now' cid submitted store))
        = Some ''Missing captchaId or answer'' \<or>
     reason (fst (validate_captcha now now' cid submitted store)) = Some ''Answer too long'') \<and>
    respAttempts (fst (validate_captcha now now' cid submitted store)) = None"
  using assms by (auto simp: validate_captcha_def rejected_def)

theorem shape_rejection_leaves_store_witness:
  "snd (validate_captcha 2000 2001 exampleId (JString (js ''12345678901'')) exampleStore)
     = exampleStore \<and>
   snd (validate_captcha 2000 2001 exampleId JNull exampleStore) = exampleStore \<and>
   snd (validate_captcha 2000 2001 JUndefined (JString (js ''7'')) exampleStore) = exampleStore"
proof -
  have long: "\<exists>s. JString (js ''12345678901'') = JString s \<and> length s > maxAnswerLength"
    by (simp add: maxAnswerLength_def)
  show ?thesis
    using shape_rejection_leaves_store [of exampleId "JString (js ''12345678901'')" 2000 2001 exampleStore]
      shape_rejection_leaves_store [of exampleId JNull 2000 2001 exampleStore]
      shape_rejection_leaves_store [of JUndefined "JString (js ''7'')" 2000 2001 exampleStore]
      long
    by simp
qed

text \<open>
  C6 as stated fails for a value that is a number: 12345678901 prints with eleven
  digits, yet the length check reads strings only, so the call counts as an attempt.
\<close>

theorem long_number_counts_counterexample:
  "length (toString 12345678901) > maxAnswerLength \<and>
   map_option attempts (store_get exampleStore exampleId) = Some 0 \<and>
   fst (validate_captcha 2000 2001 exampleId (JNumber (toString 12345678901)) exampleStore) =
     \<lparr>statusCode = 200, success = True, valid = False, reason = Some ''Wrong answer'',
      respAttempts = Some 1, respDifficulty = Some (js ''easy'')\<rparr> \<and>
   map_option attempts (store_get
     (snd (validate_captcha 2000 2001 exampleId (JNumber (toString 12345678901)) exampleStore))
     exampleId)
     = Some 1"
  by (simp add: example_eval)

subsection \<open>The invariant of the store\<close>

lemma set_update_subset: "set (AList.update k v al) \<subseteq> insert (k, v) (set al)"
  by (induction al) auto

lemma set_delete_subset: "set (AList.delete k al) \<subseteq> set al"
  by (induction al) auto

lemma inv_update:
  "storeInvariant store \<Longrightarrow> attempts c \<le> maxAttempts \<Longrightarrow> storeInvariant (AList.update k c store)"
  using set_update_subset[of k c store]
  by (auto simp: storeInvariant_def distinct_update list_all_iff)

lemma inv_delete: "storeInvariant store \<Longrightarrow> storeInvariant (AList.delete k store)"
  using set_delete_subset[of k store]
  by (auto simp: storeInvariant_def distinct_delete list_all_iff)

lemma inv_store_delete: "storeInvariant store \<Longrightarrow> storeInvariant (store_delete v store)"
  by (cases v) (simp_all add: inv_delete)

lemma inv_store_set:
  "storeInvariant store \<Longrightarrow> attempts c \<le> maxAttempts \<Longrightarrow> storeInvariant (store_set v c store)"
  by (cases v) (simp_all add: inv_update)

lemma inv_cleanup: "storeInvariant store \<Longrightarrow> storeInvariant (cleanup now store)"
  by (auto simp: storeInvariant_def cleanup_def distinct_map_filter list_all_iff)

lemma inv_validate:
  "storeInvariant store \<Longrightarrow> storeInvariant (snd (validate_captcha now now' cid submitted store))"
  by (auto simp: validate_captcha_def Let_def inv_store_delete inv_store_set
      split: option.splits sum.splits)

lemma inv_finish: "storeInvariant store \<Longrightarrow> storeInvariant (finish_callback k store)"
proof (cases "map_of store k")
  case None
  then show "storeInvariant store \<Longrightarrow> storeInvariant (finish_callback k store)"
    by (simp add: finish_callback_def)
next
  case (Some c)
  assume inv: "storeInvariant store"
  from Some have "(k, c) \<in> set store" by (rule map_of_SomeD)
  with inv have "attempts c \<le> maxAttempts" by (auto simp: storeInvariant_def list_all_iff)
  with inv Some show "storeInvariant (finish_callback k store)"
    by (simp add: finish_callback_def inv_update)
qed

lemma inv_fallback:
  "storeInvariant store \<Longrightarrow> storeInvariant (snd (captcha_fallback previous cid store))"
  by (simp add: captcha_fallback_def inv_store_delete)

lemma inv_create:
  "storeInvariant store \<Longrightarrow>
   storeInvariant (snd (api_captcha req requested newId rnd now now' store))"
  by (auto simp: api_captcha_def Let_def inv_update split: sum.splits prod.splits)

text \<open>
  C7: in every state of the store that the handlers (create, validate, fallback
  discard), the cleanup sweep and the \<open>finish\<close> callbacks reach from the empty store, in
  any order and with any arguments, the validation calls that end in the \<open>catch\<close> of
  the handler included, no id has two entries, and every entry has at most
  \<open>maxAttempts\<close> attempts; an id therefore names exactly the one challenge \<open>store_get\<close>
  returns.
\<close>

theorem reachable_store_invariant:
  assumes "reachable store"
  shows "distinct (map fst store) \<and>
         (\<forall>(k, c) \<in> set store. attempts c \<le> maxAttempts \<and> store_get store (JString k) = Some c)"
proof -
  have "storeInvariant store"
    using assms
  proof (induction rule: reachable.induct)
    case start
    show ?case by (simp add: storeInvariant_def)
  qed (simp_all add: inv_create inv_validate inv_fallback inv_cleanup inv_finish)
  then show ?thesis
    by (auto simp: storeInvariant_def list_all_iff)
qed

theorem reachable_store_invariant_witness:
  "reachable (snd (validate_captcha 2000 2001 exampleId (JObject [(js ''toString'', JNumber (js ''1''))])
      (finish_callback (js ''c0ffee'')
        (snd (api_captcha botRequest (Some (js ''easy'')) (js ''c0ffee'') drawsThreeFour 1000 1000 []))))) \<and>
   distinct (map fst (snd (validate_captcha 2000 2001 exampleId (JObject [(js ''toString'', JNumber (js ''1''))])
      (finish_callback (js ''c0ffee'')
        (snd (api_captcha botRequest (Some (js ''easy'')) (js ''c0ffee'') drawsThreeFour 1000 1000 [])))))) \<and>
   list_all (\<lambda>(k, c). attempts c \<le> maxAttempts)
     (snd (validate_captcha 2000 2001 exampleId (JObject [(js ''toString'', JNumber (js ''1''))])
      (finish_callback (js ''c0ffee'')
        (snd (api_captcha botRequest (Some (js ''easy'')) (js ''c0ffee'') drawsThreeFour 1000 1000 [])))))"
proof -
  let ?s = "snd (validate_captcha 2000 2001 exampleId (JObject [(js ''toString'', JNumber (js ''1''))])
      (finish_callback (js ''c0ffee'')
        (snd (api_captcha botRequest (Some (js ''easy'')) (js ''c0ffee'') drawsThreeFour 1000 1000 []))))"
  have r: "reachable ?s"
    by (intro reachable.validate reachable.finish reachable.create reachable.start)
  show ?thesis
    using r reachable_store_invariant [OF r] by (auto simp: list_all_iff)
qed

subsection \<open>The rate limiter\<close>

lemma limitOf_cases:
  "limitOf req = captchaGeneration \<or> limitOf req = captchaValidation \<or> limitOf req = general"
  by (simp add: limitOf_def)

lemma maxRequests_pos: "0 < maxRequests (limitOf req)"
  using limitOf_cases[of req]
  by (auto simp: captchaGeneration_def captchaValidation_def general_def)

lemma advancedRateLimit_eq:
  "advancedRateLimit now req rc =
     (if length (retained now req rc) \<ge> maxRequests (limitOf req)
      then (TooManyRequests
              (case retained now req rc of
                 [] \<Rightarrow> None
               | t # _ \<Rightarrow> Some \<lceil>of_int (t + windowMs (limitOf req) - now) / (1000 :: real)\<rceil>),
            rc(keyOf req \<mapsto> retained now req rc))
      else (Next \<lparr>remaining = int (maxRequests (limitOf req))
                       - int (length (retained now req rc @ [now])),
                   limit = maxRequests (limitOf req),
                   reset = hd (retained now req rc @ [now]) + windowMs (limitOf req)\<rparr>,
            rc(keyOf req \<mapsto> retained now req rc @ [now])))"
  by (simp add: advancedRateLimit_def retained_def storedRequests_def limitOf_def keyOf_def Let_def
      cong: list.case_cong)

lemma rateLimit_reject:
  assumes "length (retained now req rc) \<ge> maxRequests (limitOf req)"
  shows "advancedRateLimit now req rc =
     (TooManyRequests (Some \<lceil>of_int (hd (retained now req rc) + windowMs (limitOf req) - now)
         / (1000 :: real)\<rceil>),
      rc(keyOf req \<mapsto> retained now req rc))"
proof -
  from assms maxRequests_pos[of req] have "retained now req rc \<noteq> []" by auto
  then obtain t ts where "retained now req rc = t # ts"
    by (cases "retained now req rc") auto
  with assms show ?thesis by (simp add: advancedRateLimit_eq)
qed

lemma rateLimit_allow:
  assumes "length (retained now req rc) < maxRequests (limitOf req)"
  shows "advancedRateLimit now req rc =
     (Next \<lparr>remaining = int (maxRequests (limitOf req))
                - int (length (retained now req rc @ [now])),
            limit = maxRequests (limitOf req),
            reset = hd (retained now req rc @ [now]) + windowMs (limitOf req)\<rparr>,
      rc(keyOf req \<mapsto> retained now req rc @ [now]))"
  using assms by (simp add: advancedRateLimit_eq)

lemma retryAfter_pos:
  assumes "retained now req rc \<noteq> []"
  shows "0 < \<lceil>of_int (hd (retained now req rc) + windowMs (limitOf req) - now) / (1000 :: real)\<rceil>"
proof -
  have "hd (retained now req rc) \<in> set (retained now req rc)" using assms by simp
  then have "hd (retained now req rc) > now - windowMs (limitOf req)"
    by (auto simp: retained_def)
  then have "0 < hd (retained now req rc) + windowMs (limitOf req) - now" by simp
  then have "(0::real) < of_int (hd (retained now req rc) + windowMs (limitOf req) - now) / 1000"
    by simp
  then show ?thesis by simp
qed

lemma retained_all:
  assumes "\<forall>u\<in>set stored. now - u < windowMs (limitOf req)"
    and "storedRequests req rc = stored"
  shows "retained now req rc = stored"
proof -
  have "filter (\<lambda>time. time > now - windowMs (limitOf req)) stored = stored"
    using assms(1) by (intro filter_True) auto
  with assms(2) show ?thesis by (simp add: retained_def)
qed

lemma rateLimitAll_allowed:
  assumes "storedRequests req rc = stored"
    and "\<forall>u\<in>set (stored @ ts). \<forall>t\<in>set ts. t - u < windowMs (limitOf req)"
    and "length stored + length ts \<le> maxRequests (limitOf req)"
  shows "list_all isNext (fst (rateLimitAll ts req rc)) \<and>
         length (fst (rateLimitAll ts req rc)) = length ts \<and>
         storedRequests req (snd (rateLimitAll ts req rc)) = stored @ ts"
  using assms
proof (induction ts arbitrary: rc stored)
  case Nil
  then show ?case by simp
next
  case (Cons t ts)
  have p: "retained t req rc = stored"
    using Cons.prems(1,2) by (intro retained_all) auto
  have lt: "length (retained t req rc) < maxRequests (limitOf req)"
    using Cons.prems(3) p by simp
  note step = rateLimit_allow[OF lt, unfolded p]
  let ?rc' = "rc(keyOf req \<mapsto> stored @ [t])"
  have s': "storedRequests req ?rc' = stored @ [t]" by (simp add: storedRequests_def)
  have ih: "list_all isNext (fst (rateLimitAll ts req ?rc')) \<and>
         length (fst (rateLimitAll ts req ?rc')) = length ts \<and>
         storedRequests req (snd (rateLimitAll ts req ?rc')) = (stored @ [t]) @ ts"
    using Cons.prems(2,3) by (intro Cons.IH[OF s']) auto
  show ?case using ih by (simp add: step split_def Let_def)
qed

text \<open>
  C5: a check at \<open>now\<close> for the key of a request first retains of the stored
  timestamps those later than \<open>now - windowMs\<close>, so none older than that is kept. If at
  least \<open>max\<close> are retained, the request is rejected, the retry-after computed from the
  first retained timestamp plus the window is positive, and the sequence stored is the
  retained one with no new timestamp. Otherwise the request is allowed and the sequence
  stored is the retained one with \<open>now\<close> appended. Other keys are untouched. Hence, for a
  key with nothing stored, of \<open>max + 1\<close> requests that lie within one window of each
  other the first \<open>max\<close> are allowed and the last is rejected with a positive retry-after.
\<close>

theorem rate_limit_sliding_window:
  "list_all (\<lambda>t. \<not> t < now - windowMs (limitOf req)) (retained now req rc)
   \<and> (length (retained now req rc) \<ge> maxRequests (limitOf req) \<longrightarrow>
        (\<exists>retryAfter. fst (advancedRateLimit now req rc) = TooManyRequests (Some retryAfter)
           \<and> retryAfter = \<lceil>of_int (hd (retained now req rc) + windowMs (limitOf req) - now)
                / (1000 :: real)\<rceil>
           \<and> 0 < retryAfter)
        \<and> storedRequests req (snd (advancedRateLimit now req rc)) = retained now req rc)
   \<and> (length (retained now req rc) < maxRequests (limitOf req) \<longrightarrow>
        isNext (fst (advancedRateLimit now req rc))
        \<and> storedRequests req (snd (advancedRateLimit now req rc)) = retained now req rc @ [now])
   \<and> (\<forall>k. k \<noteq> keyOf req \<longrightarrow> snd (advancedRateLimit now req rc) k = rc k)
   \<and> (storedRequests req rc = [] \<and> length ts = maxRequests (limitOf req) \<and>
       (\<forall>u\<in>set (ts @ [now]). \<forall>t\<in>set (ts @ [now]). t - u < windowMs (limitOf req)) \<longrightarrow>
        list_all isNext (fst (rateLimitAll ts req rc))
        \<and> length (fst (rateLimitAll ts req rc)) = maxRequests (limitOf req)
        \<and> (\<exists>retryAfter. fst (advancedRateLimit now req (snd (rateLimitAll ts req rc)))
              = TooManyRequests (Some retryAfter) \<and> 0 < retryAfter)
        \<and> storedRequests req (snd (advancedRateLimit now req (snd (rateLimitAll ts req rc)))) = ts)"
proof (intro conjI impI allI)
  show "list_all (\<lambda>t. \<not> t < now - windowMs (limitOf req)) (retained now req rc)"
    by (auto simp: retained_def list_all_iff)
next
  assume ge: "maxRequests (limitOf req) \<le> length (retained now req rc)"
  with maxRequests_pos[of req] have ne: "retained now req rc \<noteq> []" by auto
  show "\<exists>retryAfter. fst (advancedRateLimit now req rc) = TooManyRequests (Some retryAfter)
           \<and> retryAfter = \<lceil>of_int (hd (retained now req rc) + windowMs (limitOf req) - now)
                / (1000 :: real)\<rceil>
           \<and> 0 < retryAfter"
    using retryAfter_pos[OF ne] by (simp add: rateLimit_reject[OF ge])
  show "storedRequests req (snd (advancedRateLimit now req rc)) = retained now req rc"
    by (simp add: rateLimit_reject[OF ge] storedRequests_def)
next
  assume lt: "length (retained now req rc) < maxRequests (limitOf req)"
  show "isNext (fst (advancedRateLimit now req rc))"
    by (simp add: rateLimit_allow[OF lt])
  show "storedRequests req (snd (advancedRateLimit now req rc)) = retained now req rc @ [now]"
    by (simp add: rateLimit_allow[OF lt] storedRequests_def)
next
  fix k assume "k \<noteq> keyOf req"
  then show "snd (advancedRateLimit now req rc) k = rc k"
    by (simp add: advancedRateLimit_eq)
next
  assume a: "storedRequests req rc = [] \<and> length ts = maxRequests (limitOf req) \<and>
       (\<forall>u\<in>set (ts @ [now]). \<forall>t\<in>set (ts @ [now]). t - u < windowMs (limitOf req))"
  then have w: "\<forall>u\<in>set ([] @ ts). \<forall>t\<in>set ts. t - u < windowMs (limitOf req)" by auto
  from a have len: "length ([] :: int list) + length ts \<le> maxRequests (limitOf req)" by simp
  from a have st: "storedRequests req rc = []" by simp
  note run = rateLimitAll_allowed[OF st w len]
  let ?rc = "snd (rateLimitAll ts req rc)"
  have sr: "storedRequests req ?rc = ts" using run by simp
  have "\<forall>u\<in>set ts. now - u < windowMs (limitOf req)" using a by auto
  then have ret: "retained now req ?rc = ts" using sr by (rule retained_all)
  have ge: "maxRequests (limitOf req) \<le> length (retained now req ?rc)" using ret a by simp
  with maxRequests_pos[of req] have ne: "retained now req ?rc \<noteq> []" by auto
  show "list_all isNext (fst (rateLimitAll ts req rc))" using run by simp
  show "length (fst (rateLimitAll ts req rc)) = maxRequests (limitOf req)" using run a by simp
  show "\<exists>retryAfter. fst (advancedRateLimit now req ?rc) = TooManyRequests (Some retryAfter)
      \<and> 0 < retryAfter"
    using retryAfter_pos[OF ne] by (simp add: rateLimit_reject[OF ge])
  show "storedRequests req (snd (advancedRateLimit now req ?rc)) = ts"
    by (simp add: rateLimit_reject[OF ge] storedRequests_def ret)
qed

theorem rate_limit_sliding_window_witness:
  "list_all isNext (fst (rateLimitAll (replicate 100 5000) botRequest Map.empty)) \<and>
   length (fst (rateLimitAll (replicate 100 5000) botRequest Map.empty)) = 100 \<and>
   \<not> isNext (fst (advancedRateLimit 6000 botRequest
        (snd (rateLimitAll (replicate 100 5000) botRequest Map.empty)))) \<and>
   storedRequests botRequest (snd (advancedRateLimit 6000 botRequest
        (snd (rateLimitAll (replicate 100 5000) botRequest Map.empty)))) = replicate 100 5000 \<and>
   isNext (fst (advancedRateLimit 6000 botRequest Map.empty)) \<and>
   storedRequests botRequest (snd (advancedRateLimit 6000 botRequest Map.empty)) = [6000]"
proof -
  have lim: "limitOf botRequest = captchaGeneration"
    by (simp add: limitOf_def botRequest_def)
  have h: "storedRequests botRequest Map.empty = [] \<and>
      length (replicate 100 (5000::int)) = maxRequests (limitOf botRequest) \<and>
      (\<forall>u\<in>set (replicate 100 5000 @ [6000]). \<forall>t\<in>set (replicate 100 5000 @ [6000]).
         t - u < windowMs (limitOf botRequest))"
    by (auto simp: lim captchaGeneration_def storedRequests_def)
  have e: "retained 6000 botRequest Map.empty = []"
    by (simp add: retained_def storedRequests_def)
  then have lt: "length (retained 6000 botRequest Map.empty) < maxRequests (limitOf botRequest)"
    by (simp add: lim captchaGeneration_def)
  note run = rate_limit_sliding_window [of 6000 botRequest Map.empty "replicate 100 5000",
      THEN conjunct2, THEN conjunct2, THEN conjunct2, THEN conjunct2, THEN mp, OF h]
  note one = rate_limit_sliding_window [of 6000 botRequest Map.empty "[]",
      THEN conjunct2, THEN conjunct2, THEN conjunct1, THEN mp, OF lt]
  obtain r where r: "fst (advancedRateLimit 6000 botRequest
        (snd (rateLimitAll (replicate 100 5000) botRequest Map.empty))) = TooManyRequests (Some r)"
    using run by blast
  show ?thesis using run one r by (simp add: lim captchaGeneration_def e)
qed

subsection \<open>The generator\<close>

lemma randomInRange_bounds:
  assumes "unitInterval rnd" and "lo \<le> hi"
  shows "lo \<le> fst (randomInRange (lo, hi) rnd i) \<and> fst (randomInRange (lo, hi) rnd i) \<le> hi"
proof -
  have r: "0 \<le> rnd i" "rnd i < 1" using assms(1) by (auto simp: unitInterval_def)
  let ?n = "of_int (hi - lo + 1) :: real"
  have n: "0 < ?n" using assms(2) by simp
  have "0 \<le> rnd i * ?n" using r n by simp
  then have lo: "0 \<le> \<lfloor>rnd i * ?n\<rfloor>" by simp
  have "rnd i * ?n < ?n" using r n by simp
  then have "\<lfloor>rnd i * ?n\<rfloor> < hi - lo + 1" by (simp only: floor_less_iff)
  with lo show ?thesis by (simp add: randomInRange_def)
qed

lemma generateBasicCaptcha_no_type:
  "captchaType (fst (generateBasicCaptcha kind r rnd i)) = None"
  by (simp add: generateBasicCaptcha_def Let_def split_def)

lemmas generate_eval = generateCaptcha_def difficulties_def objectPrototypeKeys_def
  randomElement_def randomInRange_def generateBasicCaptcha_def distorted_def applyDistortion_def
  distortions_def evalBinary_def leetMap_def toLowerCase_def toString_eval Let_def

text \<open>
  C8: at difficulty easy, with draws that give the operands 3 and 4 for an addition,
  \<open>generateCaptcha\<close> returns the question "What is 3 + 4?" and the answer 7 and no
  \<open>type\<close> field at all: the basic kinds return from \<open>generateBasicCaptcha\<close>, which
  builds an object of \<open>question\<close> and \<open>answer\<close> only.
\<close>

theorem generateCaptcha_easy_has_no_type:
  "generateCaptcha (Some (js ''easy'')) drawsThreeFour 0 =
     Inr (\<lparr>question = js ''What is 3 + 4?'', answer = 7, captchaType = None,
           difficulty = None\<rparr>, 3)"
  by (simp add: generate_eval drawsThreeFour_def numeral_3_eq_3)

text \<open>
  C9: at difficulty extreme, whenever the kind drawn is \<open>multipleOperations\<close>, the
  result is the plain addition question "What is a + b?" with the answer \<open>a + b\<close>, where
  \<open>a\<close> and \<open>b\<close> are the next two draws from the range 5 to 30; the question is not
  distorted (no further draw is made) and the object carries no \<open>type\<close>.
\<close>

theorem multipleOperations_is_plain_addition:
  assumes "unitInterval rnd"
    and "fst (randomElement [js ''complexAlgebra'', js ''multipleOperations'', js ''logicPuzzle'']
           rnd 0) = Some (js ''multipleOperations'')"
  shows "\<exists>a b. generateCaptcha (Some (js ''extreme'')) rnd 0 =
           Inr (\<lparr>question = js ''What is '' @ toString a @ js '' + '' @ toString b @ js ''?'',
                 answer = a + b, captchaType = None, difficulty = None\<rparr>, 3)
         \<and> a = fst (randomInRange (5, 30) rnd 1) \<and> b = fst (randomInRange (5, 30) rnd 2)
         \<and> 5 \<le> a \<and> a \<le> 30 \<and> 5 \<le> b \<and> b \<le> 30"
proof -
  let ?L = "[js ''complexAlgebra'', js ''multipleOperations'', js ''logicPuzzle'']"
  define k where "k = \<lfloor>rnd 0 * 3\<rfloor>"
  have r: "0 \<le> rnd 0" "rnd 0 < 1" using assms(1) by (auto simp: unitInterval_def)
  have "0 \<le> k" using r by (simp add: k_def)
  moreover have "k < 3" using r by (simp add: k_def floor_less_iff)
  ultimately have "k = 0 \<or> k = 1 \<or> k = 2" by arith
  moreover have "k \<noteq> 0"
  proof
    assume "k = 0"
    then have "\<lfloor>rnd 0 * 3\<rfloor> = 0" by (simp add: k_def)
    then have "fst (randomElement ?L rnd 0) = Some (js ''complexAlgebra'')"
      by (simp add: randomElement_def Let_def)
    with assms(2) show False by simp
  qed
  moreover have "k \<noteq> 2"
  proof
    assume "k = 2"
    then have "\<lfloor>rnd 0 * 3\<rfloor> = 2" by (simp add: k_def)
    then have "fst (randomElement ?L rnd 0) = Some (js ''logicPuzzle'')"
      by (simp add: randomElement_def Let_def)
    with assms(2) show False by simp
  qed
  ultimately have fl: "\<lfloor>rnd 0 * 3\<rfloor> = 1" by (simp add: k_def)
  have gen: "generateCaptcha (Some (js ''extreme'')) rnd 0 =
      Inr (generateBasicCaptcha (Some (js ''multipleOperations'')) (5, 30) rnd (Suc 0))"
    using r
    by (simp add: generateCaptcha_def difficulties_def objectPrototypeKeys_def randomElement_def
        fl Let_def)
  have basic: "generateBasicCaptcha (Some (js ''multipleOperations'')) (5, 30) rnd (Suc 0) =
      (\<lparr>question = js ''What is '' @ toString (fst (randomInRange (5, 30) rnd 1)) @ js '' + ''
          @ toString (fst (randomInRange (5, 30) rnd 2)) @ js ''?'',
        answer = fst (randomInRange (5, 30) rnd 1) + fst (randomInRange (5, 30) rnd 2),
        captchaType = None, difficulty = None\<rparr>, 3)"
    by (simp add: generateBasicCaptcha_def randomInRange_def Let_def numeral_2_eq_2 numeral_3_eq_3)
  show ?thesis
    using gen basic randomInRange_bounds[OF assms(1), of 5 30 1]
      randomInRange_bounds[OF assms(1), of 5 30 2]
    by simp
qed

theorem multipleOperations_is_plain_addition_witness:
  "generateCaptcha (Some (js ''extreme'')) drawsHalf 0 =
     Inr (\<lparr>question = js ''What is 18 + 18?'', answer = 36, captchaType = None,
           difficulty = None\<rparr>, 3)"
proof -
  have u: "unitInterval drawsHalf" by (simp add: unitInterval_def drawsHalf_def)
  have sel: "fst (randomElement [js ''complexAlgebra'', js ''multipleOperations'',
      js ''logicPuzzle''] drawsHalf 0) = Some (js ''multipleOperations'')"
    by (simp add: randomElement_def drawsHalf_def Let_def)
  have a: "fst (randomInRange (5, 30) drawsHalf i) = 18" for i
    by (simp add: randomInRange_def drawsHalf_def)
  have s: "toString 18 = js ''18''" by (simp add: toString_eval)
  show ?thesis
    using multipleOperations_is_plain_addition [OF u sel] by (simp add: a s)
qed

text \<open>
  C10: there is a generation of a mixed-operations puzzle whose stored answer is
  negative. With the draws \<open>drawsOneTwenty\<close> at difficulty hard the kind is
  \<open>mixedOperations\<close>, the operator is \<open>-\<close>, the operands are drawn as 1 and then 20, and
  the answer is \<open>1 - 20 = -19\<close>, the operands in the order drawn (as for any two
  operands under \<open>-\<close>); the handler stores it. The basic subtraction with the same two
  operands answers \<open>20 - 1 = 19\<close>.
\<close>

theorem mixedOperations_answer_can_be_negative:
  "unitInterval drawsOneTwenty \<and>
   generateCaptcha (Some (js ''hard'')) drawsOneTwenty 0 =
     Inr (\<lparr>question = js ''Calculate: 1 - 20'', answer = - 19,
           captchaType = Some (js ''mixedOperations''), difficulty = Some (js ''hard'')\<rparr>, 7) \<and>
   fst (randomInRange (1, 20) drawsOneTwenty 2) = 1 \<and>
   fst (randomInRange (1, 20) drawsOneTwenty 3) = 20 \<and>
   map_option storedAnswer (map_of (snd (api_captcha botRequest (Some (js ''hard''))
       (js ''c0ffee'') drawsOneTwenty 1000 1000 [])) (js ''c0ffee'')) = Some (- 19) \<and>
   answer (fst (generateBasicCaptcha (Some (js ''subtraction'')) (1, 20) drawsOneTwenty 2)) = 19 \<and>
   evalBinary (js ''-'') num1 num2 = num1 - num2"
  by (simp add: generate_eval drawsOneTwenty_def unitInterval_def api_captcha_def
      determineDifficulty_def allowedDifficulties_def)

end
